theory Spec2Isabelle
  imports Complex_Main "HOL-Library.Multiset"
begin

section \<open>Numbers, vectors and tracking samples\<close>

text \<open>
  JavaScript numbers are modelled as mathematical reals: finite values are computed with
  exact real arithmetic (no rounding, no overflow).  The non-finite values that the code
  produces on purpose (the \<open>Infinity\<close> with which a minimum search starts, the result of
  \<open>Math.min()\<close> on no arguments) are kept apart in the type \<open>num\<close>, so that
  \<open>isFinite\<close> and the \<open>||\<close> idiom see them as the program does.
\<close>

datatype num = Fin real | Infinity | NegInfinity | NaN

fun isFinite :: "num \<Rightarrow> bool" where
  "isFinite (Fin r) = True"
| "isFinite Infinity = False"
| "isFinite NegInfinity = False"
| "isFinite NaN = False"

text \<open>\<open>isFinite(v) ? v : d\<close>\<close>

fun finiteOr :: "real \<Rightarrow> num \<Rightarrow> real" where
  "finiteOr d (Fin r) = r"
| "finiteOr d Infinity = d"
| "finiteOr d NegInfinity = d"
| "finiteOr d NaN = d"

text \<open>three.js \<open>Vector3\<close>: the ground plane is x/z, y is the vertical axis.\<close>

record vec3 =
  vx :: real
  vy :: real
  vz :: real

definition Vector3 :: "real \<Rightarrow> real \<Rightarrow> real \<Rightarrow> vec3" where
  "Vector3 a b c = \<lparr>vx = a, vy = b, vz = c\<rparr>"

text \<open>One entity sample of a frame (\<open>{id, name, team, role, x, y}\<close>); also a player's
  \<open>playerData\<close>.\<close>

record sample =
  sid :: string
  sname :: string
  steam :: string
  srole :: string
  sx :: real
  sy :: real

section \<open>PlaybackBuffer.js\<close>

record frame =
  players :: "sample list"
  videoTime :: real

record PlaybackBuffer =
  frames :: "frame list"

text \<open>\<open>Array.prototype.findIndex\<close>: index of the first element satisfying the predicate,
  \<open>-1\<close> when there is none.\<close>

fun findIndex_from :: "nat \<Rightarrow> ('a \<Rightarrow> bool) \<Rightarrow> 'a list \<Rightarrow> int" where
  "findIndex_from i P [] = - 1"
| "findIndex_from i P (a # as) = (if P a then int i else findIndex_from (Suc i) P as)"

definition findIndex :: "('a \<Rightarrow> bool) \<Rightarrow> 'a list \<Rightarrow> int" where
  "findIndex P as = findIndex_from 0 P as"

text \<open>\<open>arr[i]\<close>: \<open>undefined\<close> (here \<open>None\<close>) outside the array.\<close>

definition elemAt :: "'a list \<Rightarrow> int \<Rightarrow> 'a option" where
  "elemAt as i = (if 0 \<le> i \<and> i < int (length as) then Some (as ! nat i) else None)"

definition first :: "PlaybackBuffer \<Rightarrow> frame option" where
  "first b = elemAt (frames b) 0"

definition last_frame :: "PlaybackBuffer \<Rightarrow> frame option" where
  "last_frame b = elemAt (frames b) (int (length (frames b)) - 1)"

record frame_pair =
  prev :: "frame option"
  nxt :: "frame option"

text \<open>\<open>findFramesForInterpolation(playbackClock)\<close>; \<open>None\<close> is the \<open>null\<close> result.\<close>

definition findFramesForInterpolation :: "PlaybackBuffer \<Rightarrow> real \<Rightarrow> frame_pair option" where
  "findFramesForInterpolation b playbackClock =
     (if length (frames b) < 2 then None
      else
        let nextFrameIndex = findIndex (\<lambda>f. videoTime f \<ge> playbackClock) (frames b) in
        if nextFrameIndex = - 1 then Some \<lparr>prev = last_frame b, nxt = last_frame b\<rparr>
        else if nextFrameIndex = 0 then Some \<lparr>prev = first b, nxt = first b\<rparr>
        else
          let prevFrameIndex = nextFrameIndex - 1 in
          Some \<lparr>prev = elemAt (frames b) prevFrameIndex, nxt = elemAt (frames b) nextFrameIndex\<rparr>)"

record time_span =
  span_start :: real
  span_end :: real

definition timeSpan :: "PlaybackBuffer \<Rightarrow> time_span" where
  "timeSpan b =
     (if length (frames b) < 2 then \<lparr>span_start = 0, span_end = 0\<rparr>
      else \<lparr>span_start = (case first b of Some f \<Rightarrow> videoTime f | None \<Rightarrow> 0),
            span_end = (case last_frame b of Some f \<Rightarrow> videoTime f | None \<Rightarrow> 0)\<rparr>)"

text \<open>\<open>Array.prototype.find\<close>\<close>

fun find_first :: "('a \<Rightarrow> bool) \<Rightarrow> 'a list \<Rightarrow> 'a option" where
  "find_first P [] = None"
| "find_first P (a # as) = (if P a then Some a else find_first P as)"

record appearance =
  app_player :: sample
  app_time :: real

text \<open>The \<open>for\<close> loop of \<open>findNextAppearance\<close>, over the frames from \<open>startIndex\<close> on.\<close>

fun appearance_loop :: "string \<Rightarrow> real \<Rightarrow> frame list \<Rightarrow> appearance option" where
  "appearance_loop playerId endTime [] = None"
| "appearance_loop playerId endTime (f # fs) =
     (if videoTime f > endTime then None
      else case find_first (\<lambda>p. sid p = playerId) (players f) of
             Some player \<Rightarrow> Some \<lparr>app_player = player, app_time = videoTime f\<rparr>
           | None \<Rightarrow> appearance_loop playerId endTime fs)"

definition findNextAppearance :: "PlaybackBuffer \<Rightarrow> string \<Rightarrow> real \<Rightarrow> appearance option" where
  "findNextAppearance b playerId afterTime =
     (let startIndex = findIndex (\<lambda>f. videoTime f > afterTime) (frames b) in
      if startIndex = - 1 then None
      else
        let gracePeriodMs = 600000;
            endTime = afterTime + gracePeriodMs
        in appearance_loop playerId endTime (drop (nat startIndex) (frames b)))"

section \<open>Vector operations (three.js)\<close>

text \<open>The \<open>Vector3\<close> methods the program calls, as three.js defines them.\<close>

definition subVectors :: "vec3 \<Rightarrow> vec3 \<Rightarrow> vec3" where
  "subVectors a b = \<lparr>vx = vx a - vx b, vy = vy a - vy b, vz = vz a - vz b\<rparr>"

definition dot :: "vec3 \<Rightarrow> vec3 \<Rightarrow> real" where
  "dot a b = vx a * vx b + vy a * vy b + vz a * vz b"

definition lengthSq :: "vec3 \<Rightarrow> real" where
  "lengthSq a = vx a * vx a + vy a * vy a + vz a * vz a"

definition distanceToSquared :: "vec3 \<Rightarrow> vec3 \<Rightarrow> real" where
  "distanceToSquared a b =
     (let dx = vx a - vx b; dy = vy a - vy b; dz = vz a - vz b
      in dx * dx + dy * dy + dz * dz)"

definition distanceTo :: "vec3 \<Rightarrow> vec3 \<Rightarrow> real" where
  "distanceTo a b = sqrt (distanceToSquared a b)"

definition clamp :: "real \<Rightarrow> real \<Rightarrow> real \<Rightarrow> real" where
  "clamp v lo hi = max lo (min hi v)"

text \<open>\<open>angleTo\<close>: \<open>\<pi>/2\<close> when either vector is zero, otherwise the arc cosine of the
  clamped normalised dot product.\<close>

definition angleTo :: "vec3 \<Rightarrow> vec3 \<Rightarrow> real" where
  "angleTo a b =
     (let denominator = sqrt (lengthSq a * lengthSq b) in
      if denominator = 0 then pi / 2
      else
        let theta = dot a b / denominator
        in arccos (clamp theta (- 1) 1))"

definition lerpVectors :: "vec3 \<Rightarrow> vec3 \<Rightarrow> real \<Rightarrow> vec3" where
  "lerpVectors v1 v2 alpha =
     \<lparr>vx = vx v1 + (vx v2 - vx v1) * alpha,
      vy = vy v1 + (vy v2 - vy v1) * alpha,
      vz = vz v1 + (vz v2 - vz v1) * alpha\<rparr>"

definition addScaledVector :: "vec3 \<Rightarrow> vec3 \<Rightarrow> real \<Rightarrow> vec3" where
  "addScaledVector a v s =
     \<lparr>vx = vx a + vx v * s, vy = vy a + vy v * s, vz = vz a + vz v * s\<rparr>"

text \<open>The comparison \<open><\<close> of JavaScript on numbers; every comparison with \<open>NaN\<close> is false.\<close>

fun num_lt :: "num \<Rightarrow> num \<Rightarrow> bool" where
  "num_lt (Fin a) (Fin b) = (a < b)"
| "num_lt (Fin a) Infinity = True"
| "num_lt NegInfinity (Fin b) = True"
| "num_lt NegInfinity Infinity = True"
| "num_lt _ _ = False"

text \<open>\<open>Math.min(...xs)\<close>: \<open>Infinity\<close> on no arguments.\<close>

fun math_min :: "real list \<Rightarrow> num" where
  "math_min [] = Infinity"
| "math_min (a # as) = (case math_min as of Fin m \<Rightarrow> Fin (min a m) | _ \<Rightarrow> Fin a)"

text \<open>\<open>Math.max(...xs)\<close>: \<open>-Infinity\<close> on no arguments.\<close>

fun math_max :: "real list \<Rightarrow> num" where
  "math_max [] = NegInfinity"
| "math_max (a # as) = (case math_max as of Fin m \<Rightarrow> Fin (max a m) | _ \<Rightarrow> Fin a)"

text \<open>\<open>arr.reduce((s, v) => s + v, 0)\<close>, with exact additions; the program rounds each
  partial sum to a double.\<close>

definition reduce_sum :: "real list \<Rightarrow> real" where
  "reduce_sum as = foldl (\<lambda>s v. s + v) 0 as"

section \<open>Player (the fields the engine reads and writes)\<close>

record player =
  playerData :: sample
  mesh_position :: vec3
  targetRoot :: vec3
  currentSpeed :: real
  velocity :: vec3
  isInferred :: bool

text \<open>Object identity \<open>p === q\<close>: the player manager keeps one \<open>Player\<close> object per id.\<close>

definition same_object :: "player \<Rightarrow> player \<Rightarrow> bool" where
  "same_object p q = (sid (playerData p) = sid (playerData q))"

section \<open>utils.js\<close>

record closest_result =
  closest_player :: "player option"
  closest_distance :: num

text \<open>The loop of \<open>findClosestPlayer\<close>.  The lists handed over hold players with a mesh, so the
  \<open>!player || !player.mesh\<close> skip never applies.\<close>

fun closest_loop :: "vec3 \<Rightarrow> player list \<Rightarrow> player option \<Rightarrow> num \<Rightarrow> closest_result" where
  "closest_loop targetPosition [] closestPlayer minDistance =
     \<lparr>closest_player = closestPlayer, closest_distance = minDistance\<rparr>"
| "closest_loop targetPosition (p # ps) closestPlayer minDistance =
     (let distance = distanceTo (mesh_position p) targetPosition in
      if num_lt (Fin distance) minDistance
      then closest_loop targetPosition ps (Some p) (Fin distance)
      else closest_loop targetPosition ps closestPlayer minDistance)"

definition findClosestPlayer :: "vec3 \<Rightarrow> player list \<Rightarrow> closest_result" where
  "findClosestPlayer targetPosition ps = closest_loop targetPosition ps None Infinity"

text \<open>The two edge functions and the doubled signed area that \<open>isPointInTriangle\<close> computes on
  the ground plane (\<open>Vector2(p.x, p.z)\<close>).\<close>

definition tri_s :: "vec3 \<Rightarrow> vec3 \<Rightarrow> vec3 \<Rightarrow> real" where
  "tri_s p p0 p2 =
     vz p0 * vx p2 - vx p0 * vz p2 + (vz p2 - vz p0) * vx p + (vx p0 - vx p2) * vz p"

definition tri_t :: "vec3 \<Rightarrow> vec3 \<Rightarrow> vec3 \<Rightarrow> real" where
  "tri_t p p0 p1 =
     vx p0 * vz p1 - vz p0 * vx p1 + (vz p0 - vz p1) * vx p + (vx p1 - vx p0) * vz p"

definition tri_A :: "vec3 \<Rightarrow> vec3 \<Rightarrow> vec3 \<Rightarrow> real" where
  "tri_A p0 p1 p2 =
     - vz p1 * vx p2 + vz p0 * (vx p2 - vx p1) + vx p0 * (vz p1 - vz p2) + vx p1 * vz p2"

text \<open>The comparisons of \<open>isPointInTriangle\<close> on the three values \<open>s\<close>, \<open>t\<close> and \<open>A\<close> it has
  computed: the sign check with its early \<open>return false\<close>, then the test against \<open>A\<close>.\<close>

definition triangle_test :: "real \<Rightarrow> real \<Rightarrow> real \<Rightarrow> bool" where
  "triangle_test s t A =
     (if ((s < 0) \<noteq> (t < 0)) \<and> s \<noteq> 0 \<and> t \<noteq> 0 then False
      else if A < 0 then s \<le> 0 \<and> s + t \<ge> A else s \<ge> 0 \<and> s + t \<le> A)"

text \<open>\<open>isPointInTriangle(p, p0, p1, p2)\<close>; a missing argument is \<open>None\<close>.  (The source
  computes \<open>A\<close> only after the sign check; the check does not read it.)\<close>

fun isPointInTriangle :: "vec3 option \<Rightarrow> vec3 option \<Rightarrow> vec3 option \<Rightarrow> vec3 option \<Rightarrow> bool" where
  "isPointInTriangle (Some p) (Some p0) (Some p1) (Some p2) =
     (let s = tri_s p p0 p2;
          t = tri_t p p0 p1;
          A = tri_A p0 p1 p2
      in triangle_test s t A)"
| "isPointInTriangle _ _ _ _ = False"


text \<open>The index pairs \<open>i < j\<close> of the nested loops of \<open>getPassingCone\<close>, in loop order.\<close>

fun corner_pairs :: "'a list \<Rightarrow> ('a \<times> 'a) list" where
  "corner_pairs [] = []"
| "corner_pairs (a # as) = map (Pair a) as @ corner_pairs as"

record passing_cone =
  cone_points :: "vec3 list"
  cone_corners :: "vec3 list"

definition getPassingCone :: "vec3 \<Rightarrow> vec3 list \<Rightarrow> passing_cone" where
  "getPassingCone startPoint quadCorners =
     (let (maxAngle, coneCorners) =
            foldl (\<lambda>(maxAngle, coneCorners) (ci, cj).
                     let v1 = subVectors ci startPoint;
                         v2 = subVectors cj startPoint;
                         angle = angleTo v1 v2
                     in if angle > maxAngle then (angle, [ci, cj]) else (maxAngle, coneCorners))
                  (- 1, []) (corner_pairs quadCorners);
          sortedCorners = (if length coneCorners > 1 then sort_key vz coneCorners else [])
      in \<lparr>cone_points = startPoint # sortedCorners, cone_corners = sortedCorners\<rparr>)"

section \<open>Arithmetic on numbers that may be non-finite\<close>

text \<open>
  The operators of JavaScript on \<open>num\<close>, with the IEEE rules for \<open>Infinity\<close> and \<open>NaN\<close>
  (signed zeros are not distinguished: a division of a non-zero number by zero gives the
  infinity of the dividend's sign).
\<close>

fun num_uminus :: "num \<Rightarrow> num" where
  "num_uminus (Fin a) = Fin (- a)"
| "num_uminus Infinity = NegInfinity"
| "num_uminus NegInfinity = Infinity"
| "num_uminus NaN = NaN"

fun num_plus :: "num \<Rightarrow> num \<Rightarrow> num" where
  "num_plus (Fin a) (Fin b) = Fin (a + b)"
| "num_plus NaN _ = NaN"
| "num_plus _ NaN = NaN"
| "num_plus Infinity NegInfinity = NaN"
| "num_plus NegInfinity Infinity = NaN"
| "num_plus Infinity _ = Infinity"
| "num_plus _ Infinity = Infinity"
| "num_plus NegInfinity _ = NegInfinity"
| "num_plus _ NegInfinity = NegInfinity"

definition num_minus :: "num \<Rightarrow> num \<Rightarrow> num" where
  "num_minus a b = num_plus a (num_uminus b)"

text \<open>The sign of a non-\<open>NaN\<close> number: \<open>-1\<close>, \<open>0\<close> or \<open>1\<close>.\<close>

fun num_sgn :: "num \<Rightarrow> real" where
  "num_sgn (Fin a) = sgn a"
| "num_sgn Infinity = 1"
| "num_sgn NegInfinity = - 1"
| "num_sgn NaN = 0"

fun num_times :: "num \<Rightarrow> num \<Rightarrow> num" where
  "num_times (Fin a) (Fin b) = Fin (a * b)"
| "num_times NaN _ = NaN"
| "num_times _ NaN = NaN"
| "num_times a b =
     (if num_sgn a * num_sgn b = 0 then NaN
      else if num_sgn a * num_sgn b > 0 then Infinity else NegInfinity)"

fun num_divide :: "num \<Rightarrow> num \<Rightarrow> num" where
  "num_divide (Fin a) (Fin b) =
     (if b \<noteq> 0 then Fin (a / b)
      else if a = 0 then NaN else if a > 0 then Infinity else NegInfinity)"
| "num_divide NaN _ = NaN"
| "num_divide _ NaN = NaN"
| "num_divide (Fin a) _ = Fin 0"
| "num_divide a (Fin b) =
     (if num_sgn a * (if b < 0 then - 1 else 1) > 0 then Infinity else NegInfinity)"
| "num_divide _ _ = NaN"

fun num_exp :: "num \<Rightarrow> num" where
  "num_exp (Fin a) = Fin (exp a)"
| "num_exp Infinity = Infinity"
| "num_exp NegInfinity = Fin 0"
| "num_exp NaN = NaN"

text \<open>\<open>a || b\<close> on numbers: \<open>0\<close> and \<open>NaN\<close> are falsy, every other number (also
  \<open>Infinity\<close>) is truthy.\<close>

fun truthy :: "num \<Rightarrow> bool" where
  "truthy (Fin a) = (a \<noteq> 0)"
| "truthy Infinity = True"
| "truthy NegInfinity = True"
| "truthy NaN = False"

definition or_else :: "num \<Rightarrow> num \<Rightarrow> num" where
  "or_else a b = (if truthy a then a else b)"

section \<open>LsCalculator.js\<close>

record lq =
  center :: vec3
  corners :: "vec3 list"
  area :: real

record goal =
  position :: vec3
  post1 :: vec3
  post2 :: vec3

text \<open>The only exception the scoring code can raise: calling a method that the receiver does
  not have.\<close>

datatype error = TypeError

text \<open>What may arrive as the third argument \<open>carrierPosition\<close> of
  \<open>calculateTeamControlMetrics\<close>: nothing, a \<open>Vector3\<close>, or a \<open>Player\<close> object (which is
  truthy and has no \<open>distanceTo\<close> method).\<close>

datatype carrier_arg = Undefined | PositionArg vec3 | PlayerArg player

record control_metrics =
  fastestTimeToArrival :: real
  ttas :: "real list"

text \<open>\<open>currentSpeed\<close> is always a number here, so the reset of a non-numeric speed to 0 is
  not modelled.\<close>

definition calculateTeamControlMetrics ::
  "vec3 \<Rightarrow> player list \<Rightarrow> carrier_arg \<Rightarrow> error + control_metrics" where
  "calculateTeamControlMetrics target ps carrierPosition =
     (if carrierPosition = Undefined then
        (if length ps = 0 then Inr \<lparr>fastestTimeToArrival = 99, ttas = []\<rparr>
         else
           let MIN_EFFECTIVE_SPEED = 1.0;
               ts = map (\<lambda>p. distanceTo (mesh_position p) target
                              / max (currentSpeed p) MIN_EFFECTIVE_SPEED) ps;
               fastest = math_min ts
           in Inr \<lparr>fastestTimeToArrival = finiteOr 99 fastest, ttas = ts\<rparr>)
      else if length ps = 0 then Inr \<lparr>fastestTimeToArrival = 99, ttas = []\<rparr>
      else
        case carrierPosition of
          PositionArg cp \<Rightarrow>
            let AVERAGE_PASS_SPEED = 15.0;
                MIN_EFFECTIVE_SPEED = 4.0;
                timeForBallToTravel = distanceTo cp target / AVERAGE_PASS_SPEED;
                ts = map (\<lambda>p.
                       let effectiveSpeed = max (currentSpeed p) MIN_EFFECTIVE_SPEED;
                           projectedPlayerPos =
                             addScaledVector (mesh_position p) (velocity p) timeForBallToTravel;
                           interceptPoint = lerpVectors target projectedPlayerPos 0.5;
                           timeToIntercept =
                             distanceTo (mesh_position p) interceptPoint / effectiveSpeed
                       in max timeForBallToTravel timeToIntercept) ps;
                fastest = math_min ts
            in Inr \<lparr>fastestTimeToArrival = finiteOr 99 fastest, ttas = ts\<rparr>
        | _ \<Rightarrow> Inl TypeError)"

text \<open>The two \<open>for\<close> loops of \<open>calculateStrategicBonus\<close> over the defenders.\<close>

fun offside_loop_neg :: "player list \<Rightarrow> num \<Rightarrow> player option \<Rightarrow> num \<times> player option" where
  "offside_loop_neg [] offsideLineX lastDefender = (offsideLineX, lastDefender)"
| "offside_loop_neg (d # ds) offsideLineX lastDefender =
     (if srole (playerData d) \<noteq> ''GK'' \<and> num_lt (Fin (vx (mesh_position d))) offsideLineX
      then offside_loop_neg ds (Fin (vx (mesh_position d))) (Some d)
      else offside_loop_neg ds offsideLineX lastDefender)"

fun offside_loop_pos :: "player list \<Rightarrow> num \<Rightarrow> player option \<Rightarrow> num \<times> player option" where
  "offside_loop_pos [] offsideLineX lastDefender = (offsideLineX, lastDefender)"
| "offside_loop_pos (d # ds) offsideLineX lastDefender =
     (if srole (playerData d) \<noteq> ''GK'' \<and> num_lt offsideLineX (Fin (vx (mesh_position d)))
      then offside_loop_pos ds (Fin (vx (mesh_position d))) (Some d)
      else offside_loop_pos ds offsideLineX lastDefender)"

definition calculateStrategicBonus ::
  "lq \<Rightarrow> goal \<Rightarrow> player list \<Rightarrow> player list \<Rightarrow> real \<Rightarrow> error + real" where
  "calculateStrategicBonus q g defenders attackers attackingDirection =
     (if length defenders = 0 \<or> length attackers = 0 \<or> attackingDirection = 0 then Inr 0.0
      else
        let (offsideLineX, lastDefender) =
              (if attackingDirection < 0 then offside_loop_neg defenders Infinity None
               else offside_loop_pos defenders NegInfinity None)
        in if lastDefender = None then Inr 0.0
           else
             let isBehindLine =
                   (if attackingDirection < 0 then num_lt (Fin (vx (center q))) offsideLineX
                    else num_lt offsideLineX (Fin (vx (center q))))
             in if \<not> isBehindLine then Inr 0.0
                else
                  case calculateTeamControlMetrics (center q) attackers Undefined of
                    Inl e \<Rightarrow> Inl e
                  | Inr attMetrics \<Rightarrow>
                     (case calculateTeamControlMetrics (center q) defenders Undefined of
                        Inl e \<Rightarrow> Inl e
                      | Inr defMetrics \<Rightarrow>
                          let attTTA = fastestTimeToArrival attMetrics;
                              defTTA = fastestTimeToArrival defMetrics
                          in if defTTA \<le> attTTA then Inr 0.0
                             else
                               let runway = distanceTo (center q) (position g);
                                   bonus = 0.95 * (1 / (1 + exp (- 0.25 * (runway - 20))))
                               in Inr (finiteOr 0 (Fin bonus))))"

record threat_details =
  potential :: real
  proximityThreat :: real
  strategicThreat :: real
  combinedProximityScore :: real
  goalAngleFactor :: real
  areaAmplifier :: real

definition calculateThreatPotential ::
  "lq \<Rightarrow> goal \<Rightarrow> player list \<Rightarrow> player list \<Rightarrow> real \<Rightarrow> error + threat_details" where
  "calculateThreatPotential q g defenders attackers attackingDirection =
     (let MIDPOINT_DISTANCE = 30;
          STEEPNESS = 0.25;
          proximity =
            1 / (1 + exp (STEEPNESS * (distanceTo (center q) (position g) - MIDPOINT_DISTANCE)))
      in case calculateStrategicBonus q g defenders attackers attackingDirection of
           Inl e \<Rightarrow> Inl e
         | Inr strategic \<Rightarrow>
             let combined = max proximity strategic;
                 ANGLE_DECAY_RATE = 1.2;
                 vectorToGoalCenter = subVectors (position g) (center q);
                 forwardVector = Vector3 attackingDirection 0 0;
                 offCenterAngleRad = angleTo vectorToGoalCenter forwardVector;
                 angleFactor = exp (- ANGLE_DECAY_RATE * offCenterAngleRad);
                 amplifier = 1.0 + (1 / (1 + exp (- 0.04 * (area q - 75)))) * 0.4;
                 potential0 = combined * 0.7 + angleFactor * 0.3;
                 potential1 = potential0 * amplifier
             in Inr \<lparr>potential = min 1.0 (finiteOr 0 (Fin potential1)),
                     proximityThreat = proximity,
                     strategicThreat = strategic,
                     combinedProximityScore = combined,
                     goalAngleFactor = angleFactor,
                     areaAmplifier = amplifier\<rparr>)"

record exploit_details =
  exploit_finalScore :: real
  defFastestTime :: real
  defRecoveryScore :: real
  defSwarmScore :: real
  defensiveControl :: real
  attFastestTime :: real
  attSupportScore :: real
  overloadFactor :: real
  attackingPotential :: real
  speedBonus :: real

text \<open>The defensive block: \<open>(defFastestTime, defAggProb)\<close>.\<close>

definition exploit_defence :: "lq \<Rightarrow> player list \<Rightarrow> error + real \<times> real" where
  "exploit_defence q defenders =
     (let ANALYSIS_RADIUS = 20;
          DEF_LAMBDA = 0.4;
          defendersNearLq =
            filter (\<lambda>p. distanceTo (mesh_position p) (center q) < ANALYSIS_RADIUS) defenders
      in if length defendersNearLq > 0 then
           (case calculateTeamControlMetrics (center q) defendersNearLq Undefined of
              Inl e \<Rightarrow> Inl e
            | Inr m \<Rightarrow>
                let defProbs = map (\<lambda>t. exp (- DEF_LAMBDA * t)) (ttas m)
                in Inr (fastestTimeToArrival m, reduce_sum defProbs))
         else Inr (99, 0.0))"

text \<open>The offensive block: \<open>(attFastestTime, aggAttSupport, attSupportScore)\<close>.  The
  \<open>carrier\<close> parameter is \<open>None\<close> when the caller passes no fourth argument; \<open>p !== undefined\<close>
  holds for every player.\<close>

definition exploit_attack :: "lq \<Rightarrow> player list \<Rightarrow> player option \<Rightarrow> error + real \<times> real \<times> real" where
  "exploit_attack q attackers carrier =
     (let ANALYSIS_RADIUS = 20;
          potentialReceivers =
            filter (\<lambda>p. (case carrier of None \<Rightarrow> True | Some c \<Rightarrow> \<not> same_object p c)
                         \<and> distanceTo (mesh_position p) (center q) < ANALYSIS_RADIUS) attackers
      in if length potentialReceivers > 0 then
           (case calculateTeamControlMetrics (center q) potentialReceivers
                   (case carrier of None \<Rightarrow> Undefined | Some c \<Rightarrow> PlayerArg c) of
              Inl e \<Rightarrow> Inl e
            | Inr m \<Rightarrow>
                let aggAttSupport = reduce_sum (map (\<lambda>t. exp (- 0.15 * t)) (ttas m))
                in Inr (fastestTimeToArrival m, aggAttSupport, tanh (aggAttSupport * 2.0)))
         else Inr (99, 0, 0.0))"

definition calculateExploitationScore ::
  "lq \<Rightarrow> player list \<Rightarrow> player list \<Rightarrow> player option \<Rightarrow> error + exploit_details" where
  "calculateExploitationScore q defenders attackers carrier =
     (case exploit_defence q defenders of
        Inl e \<Rightarrow> Inl e
      | Inr (defFastest, defAggProb) \<Rightarrow>
          let defRecovery = exp (- 0.1 * defFastest);
              SWARM_SENSITIVITY = 5;
              defSwarm = 1 / (1 + defAggProb * SWARM_SENSITIVITY);
              defControl = defRecovery * 0.6 + (1 - defSwarm) * 0.4
          in case exploit_attack q attackers carrier of
               Inl e \<Rightarrow> Inl e
             | Inr (attFastest, aggAttSupport, attSupport) \<Rightarrow>
                 let OVERLOAD_SCALE = 5.0;
                     overloadScore = 1 / (1 + exp (- OVERLOAD_SCALE * (aggAttSupport - defAggProb)));
                     arrivalTimeAdvantage = max 0 (defFastest - attFastest);
                     bonus = 1 + tanh (arrivalTimeAdvantage * 0.2) * 0.45;
                     baseAttackingPotential = attSupport * 0.6 + overloadScore * 0.4;
                     DEFENSIVE_PENALTY_EXPONENT = 1 :: nat;
                     exploitationScore =
                       baseAttackingPotential * (1 - defControl) ^ DEFENSIVE_PENALTY_EXPONENT;
                     finalScore = min 1.0 (exploitationScore * bonus)
                 in Inr \<lparr>exploit_finalScore = finiteOr 0 (Fin finalScore),
                         defFastestTime = defFastest,
                         defRecoveryScore = defRecovery,
                         defSwarmScore = defSwarm,
                         defensiveControl = defControl,
                         attFastestTime = attFastest,
                         attSupportScore = attSupport,
                         overloadFactor = overloadScore,
                         attackingPotential = baseAttackingPotential,
                         speedBonus = bonus\<rparr>)"

record feasy_details =
  feasy_finalScore :: real
  pressureDist :: num
  pressureFactor :: num
  numInterceptors :: nat
  obstructionFactor :: real
  passDistFactor :: real

definition calculateFeasibilityScore :: "lq \<Rightarrow> player \<Rightarrow> player list \<Rightarrow> feasy_details" where
  "calculateFeasibilityScore q carrier defenders =
     (let pressureDist0 = closest_distance (findClosestPlayer (mesh_position carrier) defenders);
          pressure =
            num_divide (Fin 1)
              (num_plus (Fin 1)
                 (num_exp (num_times (Fin (- 1.5))
                    (num_minus (or_else pressureDist0 (Fin 99)) (Fin 3.0)))));
          conePoints = cone_points (getPassingCone (mesh_position carrier) (corners q));
          interceptors =
            length (filter (\<lambda>d. isPointInTriangle (Some (mesh_position d))
                                   (elemAt conePoints 0) (elemAt conePoints 1) (elemAt conePoints 2))
                      defenders);
          obstruction = exp (- 0.3 * real interceptors);
          passDist = exp (- 0.03 * distanceTo (mesh_position carrier) (center q));
          finalScore =
            num_plus (num_plus (Fin (obstruction * 0.45)) (num_times pressure (Fin 0.3)))
              (Fin (passDist * 0.25))
      in \<lparr>feasy_finalScore = finiteOr 0 finalScore,
          pressureDist = or_else pressureDist0 (Fin 99),
          pressureFactor = pressure,
          numInterceptors = interceptors,
          obstructionFactor = obstruction,
          passDistFactor = passDist\<rparr>)"

record final_details =
  situationValue :: real
  raw_ls :: real

record ls_details =
  threat :: threat_details
  exploit :: exploit_details
  feasy :: feasy_details
  final :: final_details

record ls_result =
  final_ls :: real
  threatPotentialScore :: real
  exploitationScore :: real
  feasibilityScore :: real
  details :: ls_details

text \<open>\<open>calculateLs\<close> calls \<open>calculateExploitationScore(lq, defenders, attackers)\<close>
  with three arguments: its \<open>carrier\<close> parameter is \<open>undefined\<close>.\<close>

definition calculateLs ::
  "lq \<Rightarrow> player \<Rightarrow> player list \<Rightarrow> player list \<Rightarrow> goal \<Rightarrow> real \<Rightarrow> error + ls_result" where
  "calculateLs q carrier defenders attackers g attackingDirection =
     (case calculateThreatPotential q g defenders attackers attackingDirection of
        Inl e \<Rightarrow> Inl e
      | Inr threatDetails \<Rightarrow>
         (case calculateExploitationScore q defenders attackers None of
            Inl e \<Rightarrow> Inl e
          | Inr exploitDetails \<Rightarrow>
              let feasyDetails = calculateFeasibilityScore q carrier defenders;
                  T = potential threatDetails;
                  E = exploit_finalScore exploitDetails;
                  F = feasy_finalScore feasyDetails;
                  ALPHA = 0.4;
                  BASE = 0.5;
                  SCALE = 0.5;
                  K = 10.0;
                  productValue = T * E;
                  averageValue = (T + E) / 2;
                  situation = ALPHA * productValue + (1 - ALPHA) * averageValue;
                  raw = situation * (BASE + SCALE * F);
                  final_value = 1 / (1 + exp (- K * (raw - 0.5)))
              in Inr \<lparr>final_ls = finiteOr 0 (Fin final_value),
                      threatPotentialScore = T,
                      exploitationScore = E,
                      feasibilityScore = F,
                      details = \<lparr>threat = threatDetails, exploit = exploitDetails,
                                 feasy = feasyDetails,
                                 final = \<lparr>situationValue = situation, raw_ls = raw\<rparr>\<rparr>\<rparr>))"

section \<open>PlayerManager.js\<close>

text \<open>A JavaScript \<open>Map\<close> keeps its keys in insertion order; setting an existing key keeps
  its place.\<close>

fun map_set :: "'k \<Rightarrow> 'v \<Rightarrow> ('k \<times> 'v) list \<Rightarrow> ('k \<times> 'v) list" where
  "map_set k v [] = [(k, v)]"
| "map_set k v ((k', v') # kvs) =
     (if k' = k then (k, v) # kvs else (k', v') # map_set k v kvs)"

definition map_get :: "('k \<times> 'v) list \<Rightarrow> 'k \<Rightarrow> 'v option" where
  "map_get kvs k = map_of kvs k"

text \<open>\<open>new Map(pairs)\<close>\<close>

definition new_Map :: "('k \<times> 'v) list \<Rightarrow> ('k \<times> 'v) list" where
  "new_Map kvs = foldl (\<lambda>m (k, v). map_set k v m) [] kvs"

text \<open>\<open>Set.prototype.add\<close>, keeping insertion order.\<close>

definition set_add :: "'a list \<Rightarrow> 'a \<Rightarrow> 'a list" where
  "set_add s a = (if a \<in> set s then s else s @ [a])"

record team_info =
  team_name :: string

record match_metadata =
  home_team :: team_info
  away_team :: team_info

record gap_state =
  startPos :: vec3
  endPos :: vec3
  startTime :: real
  endTime :: real

text \<open>The manager's state: the player registry, the id of the ball's player object, and the
  gap states.  (The scene, the colours and the possession highlight are left out.)\<close>

record PlayerManager =
  playerMap :: "(string \<times> player) list"
  metadata :: match_metadata
  ball :: "string option"
  gapStates :: "string \<Rightarrow> gap_state option"

text \<open>\<open>new Player(scene, playerData, color, manager)\<close>: the mesh starts at the origin, raised
  by the ball's radius or by half a player's height; \<open>targetRoot\<close> is a copy of it.\<close>

definition new_Player :: "sample \<Rightarrow> player" where
  "new_Player d =
     (let pos = Vector3 0 (if sname d = ''Ball'' then 0.22 else 1.8 / 2) 0
      in \<lparr>playerData = d, mesh_position = pos, targetRoot = pos, currentSpeed = 0,
          velocity = Vector3 0 0 0, isInferred = False\<rparr>)"

definition setInferred :: "bool \<Rightarrow> player \<Rightarrow> player" where
  "setInferred b p = (if isInferred p = b then p else p\<lparr>isInferred := b\<rparr>)"

definition updateTarget :: "vec3 \<Rightarrow> player \<Rightarrow> player" where
  "updateTarget targetPosition p =
     p\<lparr>targetRoot := Vector3 (vx targetPosition) (vy (mesh_position p)) (vz targetPosition)\<rparr>"

text \<open>The body of the loop \<open>for (const id of allKnownIds)\<close> of \<open>updateWithInterpolation\<close>.\<close>

definition update_id ::
  "frame \<Rightarrow> frame \<Rightarrow> real \<Rightarrow> PlaybackBuffer \<Rightarrow> PlayerManager \<Rightarrow> string \<Rightarrow> PlayerManager" where
  "update_id prevFrame nextFrame alpha buffer pm ident =
     (let prevPlayerMap = new_Map (map (\<lambda>p. (sid p, p)) (players prevFrame));
          nextPlayerMap = new_Map (map (\<lambda>p. (sid p, p)) (players nextFrame));
          currentTime =
            videoTime prevFrame + (videoTime nextFrame - videoTime prevFrame) * alpha;
          prevData = map_get prevPlayerMap ident;
          nextData = map_get nextPlayerMap ident;
          playerData0 =
            (case nextData of Some d \<Rightarrow> Some d
             | None \<Rightarrow> (case prevData of Some d \<Rightarrow> Some d
                        | None \<Rightarrow> map_option playerData (map_get (playerMap pm) ident)))
      in case playerData0 of
           None \<Rightarrow> pm
         | Some pd \<Rightarrow>
            (let (player0, pm1) =
                   (case map_get (playerMap pm) ident of
                      Some p \<Rightarrow> (p, pm)
                    | None \<Rightarrow>
                        (new_Player pd,
                         pm\<lparr>playerMap := map_set ident (new_Player pd) (playerMap pm),
                            ball := (if sname pd = ''Ball'' then Some ident else ball pm)\<rparr>))
             in case nextData of
                  Some nd \<Rightarrow>
                    (let startX = (case prevData of Some d \<Rightarrow> sx d | None \<Rightarrow> sx nd);
                         startY = (case prevData of Some d \<Rightarrow> sy d | None \<Rightarrow> sy nd);
                         targetX = startX + (sx nd - startX) * alpha;
                         targetY = startY + (sy nd - startY) * alpha;
                         interpolatedPosition = Vector3 (targetX / 100.0) 0 (targetY / 100.0);
                         player1 = updateTarget interpolatedPosition (setInferred False player0)
                     in pm1\<lparr>playerMap := map_set ident player1 (playerMap pm1),
                            gapStates := (gapStates pm1)(ident := None)\<rparr>)
                | None \<Rightarrow>
                    (let gaps1 =
                           (if gapStates pm1 ident = None then
                              (case findNextAppearance buffer ident (videoTime nextFrame) of
                                 None \<Rightarrow> gapStates pm1
                               | Some futureFrame \<Rightarrow>
                                  (let lastKnownData =
                                         (case prevData of Some d \<Rightarrow> Some d
                                          | None \<Rightarrow> map_option playerData
                                                      (map_get (playerMap pm1) ident))
                                   in case lastKnownData of
                                        None \<Rightarrow> gapStates pm1
                                      | Some lk \<Rightarrow>
                                          (gapStates pm1)(ident \<mapsto>
                                             \<lparr>startPos = Vector3 (sx lk / 100.0) 0 (sy lk / 100.0),
                                              endPos = Vector3 (sx (app_player futureFrame) / 100.0) 0
                                                         (sy (app_player futureFrame) / 100.0),
                                              startTime = videoTime nextFrame,
                                              endTime = app_time futureFrame\<rparr>)))
                            else gapStates pm1)
                     in case gaps1 ident of
                          Some state \<Rightarrow>
                            (if currentTime \<ge> endTime state then
                               pm1\<lparr>playerMap :=
                                      map_set ident
                                        (setInferred False
                                           (updateTarget (endPos state) (setInferred True player0)))
                                        (playerMap pm1),
                                    gapStates := gaps1(ident := None)\<rparr>
                             else
                               let gapDuration = endTime state - startTime state;
                                   timeIntoGap = currentTime - startTime state;
                                   gapAlpha = max 0 (min 1 (timeIntoGap / gapDuration));
                                   interpolatedPosition =
                                     lerpVectors (startPos state) (endPos state) gapAlpha
                               in pm1\<lparr>playerMap :=
                                        map_set ident
                                          (updateTarget interpolatedPosition
                                             (setInferred True player0))
                                          (playerMap pm1),
                                      gapStates := gaps1\<rparr>)
                        | None \<Rightarrow>
                            pm1\<lparr>playerMap := map_set ident (setInferred True player0) (playerMap pm1),
                                gapStates := gaps1\<rparr>)))"

text \<open>\<open>updateWithInterpolation(prevFrame, nextFrame, alpha, buffer)\<close>; a missing frame is
  \<open>None\<close>.\<close>

definition updateWithInterpolation ::
  "frame option \<Rightarrow> frame option \<Rightarrow> real \<Rightarrow> PlaybackBuffer \<Rightarrow> PlayerManager \<Rightarrow> PlayerManager" where
  "updateWithInterpolation prevFrame nextFrame alpha buffer pm =
     (case (prevFrame, nextFrame) of
        (Some pf, Some nf) \<Rightarrow>
          if length (players pf) = 0 \<and> length (players nf) = 0 then
            pm\<lparr>playerMap := map (\<lambda>(k, p). (k, setInferred True p)) (playerMap pm)\<rparr>
          else
            let allKnownIds =
                  foldl set_add (foldl set_add [] (map fst (playerMap pm))) (map sid (players nf))
            in foldl (update_id pf nf alpha buffer) pm allKnownIds
      | _ \<Rightarrow> pm)"

definition getAllTeamPlayers :: "PlayerManager \<Rightarrow> string \<Rightarrow> player list" where
  "getAllTeamPlayers pm teamName =
     filter (\<lambda>p. steam (playerData p) = teamName
                \<and> srole (playerData p) \<noteq> ''BALL''
                \<and> srole (playerData p) \<noteq> ''REF'')
       (map snd (playerMap pm))"

section \<open>main.js: one animation tick up to the interpolation update\<close>

text \<open>The clock is clamped to the end of the buffer, the frame pair is looked up and the
  interpolation factor computed; the field reads \<open>prev.videoTime\<close> and \<open>next.videoTime\<close>
  raise on a missing frame.\<close>

definition tick_update :: "PlaybackBuffer \<Rightarrow> PlayerManager \<Rightarrow> real \<Rightarrow> error + PlayerManager" where
  "tick_update buffer pm clock =
     (let span = timeSpan buffer;
          playbackClock = (if clock \<ge> span_end span then span_end span else clock)
      in case findFramesForInterpolation buffer playbackClock of
           None \<Rightarrow> Inr pm
         | Some fp \<Rightarrow>
            (case (prev fp, nxt fp) of
               (Some pf, Some nf) \<Rightarrow>
                 let frameDuration = videoTime nf - videoTime pf;
                     interpAlpha =
                       (if frameDuration > 0 then (playbackClock - videoTime pf) / frameDuration
                        else 0)
                 in Inr (updateWithInterpolation (Some pf) (Some nf) interpAlpha buffer pm)
             | _ \<Rightarrow> Inl TypeError))"

text \<open>Successive ticks.  Between two ticks \<open>smoothAll\<close> moves each mesh towards its
  \<open>targetRoot\<close> in the ground plane; it changes neither \<open>targetRoot\<close> nor \<open>isInferred\<close> nor the
  height of the mesh, and is left out.\<close>

fun run_ticks :: "PlaybackBuffer \<Rightarrow> PlayerManager \<Rightarrow> real list \<Rightarrow> error + PlayerManager" where
  "run_ticks buffer pm [] = Inr pm"
| "run_ticks buffer pm (t # ts) =
     (case tick_update buffer pm t of Inl e \<Rightarrow> Inl e | Inr pm' \<Rightarrow> run_ticks buffer pm' ts)"

text \<open>The player registered under an id after a run, if the run did not raise.\<close>

definition player_after :: "error + PlayerManager \<Rightarrow> string \<Rightarrow> player option" where
  "player_after r ident = (case r of Inl e \<Rightarrow> None | Inr pm \<Rightarrow> map_get (playerMap pm) ident)"

section \<open>FeatureCalculator.js\<close>

record point2 =
  px :: real
  pz :: real

definition getTeamCentroid :: "player list \<Rightarrow> point2" where
  "getTeamCentroid ps =
     (if length ps = 0 then \<lparr>px = 0, pz = 0\<rparr>
      else
        let s = foldl (\<lambda>acc p. \<lparr>px = px acc + vx (mesh_position p),
                                 pz = pz acc + vz (mesh_position p)\<rparr>)
                  \<lparr>px = 0, pz = 0\<rparr> ps
        in \<lparr>px = px s / real (length ps), pz = pz s / real (length ps)\<rparr>)"

record team_shape =
  shape_width :: num
  shape_depth :: num

definition getTeamShape :: "player list \<Rightarrow> team_shape" where
  "getTeamShape ps =
     (if length ps < 2 then \<lparr>shape_width = Fin 0, shape_depth = Fin 0\<rparr>
      else
        let x_coords = map (\<lambda>p. vx (mesh_position p)) ps;
            z_coords = map (\<lambda>p. vz (mesh_position p)) ps
        in \<lparr>shape_width = num_minus (math_max z_coords) (math_min z_coords),
            shape_depth = num_minus (math_max x_coords) (math_min x_coords)\<rparr>)"

record defensive_line =
  line_depth :: real
  line_players :: "player list"

text \<open>\<open>Array.prototype.sort\<close> is stable; with the comparator \<open>distA - distB\<close> it sorts by the
  distance to \<open>goalX\<close>, ascending.\<close>

definition getDefensiveLineMetrics :: "player list \<Rightarrow> real \<Rightarrow> defensive_line" where
  "getDefensiveLineMetrics defenders attackingDirection =
     (if length defenders = 0 then \<lparr>line_depth = 0, line_players = []\<rparr>
      else
        let goalX = attackingDirection * 52.5;
            sortedDefenders = sort_key (\<lambda>a. \<bar>vx (mesh_position a) - goalX\<bar>) defenders;
            linePlayers = take 4 sortedDefenders
        in if length linePlayers = 0 then \<lparr>line_depth = 0, line_players = []\<rparr>
           else
             let meanX = foldl (\<lambda>s p. s + vx (mesh_position p)) 0 linePlayers
                           / real (length linePlayers)
             in \<lparr>line_depth = meanX, line_players = linePlayers\<rparr>)"

definition getFormationDisruption :: "player list \<Rightarrow> defensive_line \<Rightarrow> real" where
  "getFormationDisruption allDefenders defensiveLine =
     (if length (line_players defensiveLine) < 2 \<or> length allDefenders < 2 then 0
      else
        let idealCenterX = line_depth defensiveLine;
            idealCenterZ =
              foldl (\<lambda>s p. s + vz (mesh_position p)) 0 (line_players defensiveLine)
                / real (length (line_players defensiveLine));
            distances =
              map (\<lambda>d. let dx = vx (mesh_position d) - idealCenterX;
                            dz = vz (mesh_position d) - idealCenterZ
                        in sqrt (dx * dx + dz * dz)) allDefenders;
            meanDistance = reduce_sum distances / real (length distances);
            variance =
              foldl (\<lambda>s d. s + (d - meanDistance) ^ 2) 0 distances / real (length distances)
        in sqrt variance)"

record global_features =
  attack_centroid_x :: real
  attack_centroid_z :: real
  defend_centroid_x :: real
  defend_centroid_z :: real
  attack_width :: num
  attack_depth :: num
  defend_width :: num
  defend_depth :: num
  defensive_line_depth :: real
  formation_disruption_index :: real

definition calculateGlobalFeatures :: "PlayerManager \<Rightarrow> string \<Rightarrow> real \<Rightarrow> global_features" where
  "calculateGlobalFeatures playerManager attackingTeamName attackingDirection =
     (let homeTeamName = team_name (home_team (metadata playerManager));
          defendingTeamName =
            (if attackingTeamName = homeTeamName
             then team_name (away_team (metadata playerManager)) else homeTeamName);
          attackers = getAllTeamPlayers playerManager attackingTeamName;
          defenders = getAllTeamPlayers playerManager defendingTeamName;
          attackCentroid = getTeamCentroid attackers;
          defendCentroid = getTeamCentroid defenders;
          attackShape = getTeamShape attackers;
          defendShape = getTeamShape defenders;
          defensiveLine = getDefensiveLineMetrics defenders (- attackingDirection);
          disruption = getFormationDisruption defenders defensiveLine
      in \<lparr>attack_centroid_x = px attackCentroid,
          attack_centroid_z = pz attackCentroid,
          defend_centroid_x = px defendCentroid,
          defend_centroid_z = pz defendCentroid,
          attack_width = shape_width attackShape,
          attack_depth = shape_depth attackShape,
          defend_width = shape_width defendShape,
          defend_depth = shape_depth defendShape,
          defensive_line_depth = line_depth defensiveLine,
          formation_disruption_index = disruption\<rparr>)"

section \<open>Example data for the concrete evaluations\<close>

text \<open>A player standing at \<open>(x, z)\<close> on the pitch (meshes of players are raised by 0.9), with
  the given speed and no velocity.\<close>

definition example_player :: "string \<Rightarrow> string \<Rightarrow> string \<Rightarrow> real \<Rightarrow> real \<Rightarrow> real \<Rightarrow> player" where
  "example_player ident team r x z speed =
     \<lparr>playerData = \<lparr>sid = ident, sname = ident, steam = team, srole = r,
                     sx = 100 * x, sy = 100 * z\<rparr>,
      mesh_position = Vector3 x 0.9 z, targetRoot = Vector3 x 0.9 z,
      currentSpeed = speed, velocity = Vector3 0 0 0, isInferred = False\<rparr>"

text \<open>A 10 by 10 quadrant around the point \<open>(0, 0)\<close>, its centre at the height of the player
  meshes.\<close>

definition example_lq :: lq where
  "example_lq =
     \<lparr>center = Vector3 0 0.9 0,
      corners = [Vector3 (- 5) 0.03 (- 5), Vector3 5 0.03 (- 5), Vector3 5 0.03 5,
                 Vector3 (- 5) 0.03 5],
      area = 100\<rparr>"

text \<open>A defending team B whose own goal is at \<open>x = 52.5\<close> (the attack runs in direction +1):
  goalkeeper, four backs and one forward.\<close>

definition example_manager :: PlayerManager where
  "example_manager =
     \<lparr>playerMap =
        [(''gk'', example_player ''gk'' ''B'' ''GK'' 50 0 0),
         (''b1'', example_player ''b1'' ''B'' ''LB'' 40 20 0),
         (''b2'', example_player ''b2'' ''B'' ''LCB'' 38 5 0),
         (''b3'', example_player ''b3'' ''B'' ''RCB'' 36 (- 5) 0),
         (''b4'', example_player ''b4'' ''B'' ''RB'' 34 (- 20) 0),
         (''f1'', example_player ''f1'' ''B'' ''ST'' 0 0 0)],
      metadata = \<lparr>home_team = \<lparr>team_name = ''A''\<rparr>, away_team = \<lparr>team_name = ''B''\<rparr>\<rparr>,
      ball = None,
      gapStates = (\<lambda>_. None)\<rparr>"

text \<open>The gap scenario: player \<open>p7\<close> is seen at \<open>t = 0\<close>, missing at \<open>t = 100\<close> and back at
  \<open>t = 300\<close>; player \<open>p9\<close> is seen from \<open>t = 100\<close> on.  Sample coordinates are in
  hundredths of a pitch unit.\<close>

definition example_sample :: "string \<Rightarrow> real \<Rightarrow> real \<Rightarrow> sample" where
  "example_sample ident x y =
     \<lparr>sid = ident, sname = ident, steam = ''A'', srole = ''CM'', sx = x, sy = y\<rparr>"

definition gap_buffer :: PlaybackBuffer where
  "gap_buffer =
     \<lparr>frames =
        [\<lparr>players = [example_sample ''p7'' 1000 2000], videoTime = 0\<rparr>,
         \<lparr>players = [example_sample ''p9'' 500 500], videoTime = 100\<rparr>,
         \<lparr>players = [example_sample ''p9'' 600 500, example_sample ''p7'' 3000 4000],
          videoTime = 300\<rparr>]\<rparr>"

text \<open>The same scenario with one more frame at \<open>t = 200\<close>, in which \<open>p7\<close> is still
  missing.\<close>

definition gap_buffer_200 :: PlaybackBuffer where
  "gap_buffer_200 =
     \<lparr>frames =
        [\<lparr>players = [example_sample ''p7'' 1000 2000], videoTime = 0\<rparr>,
         \<lparr>players = [example_sample ''p9'' 500 500], videoTime = 100\<rparr>,
         \<lparr>players = [example_sample ''p9'' 550 500], videoTime = 200\<rparr>,
         \<lparr>players = [example_sample ''p9'' 600 500, example_sample ''p7'' 3000 4000],
          videoTime = 300\<rparr>]\<rparr>"

definition empty_manager :: PlayerManager where
  "empty_manager =
     \<lparr>playerMap = [],
      metadata = \<lparr>home_team = \<lparr>team_name = ''A''\<rparr>, away_team = \<lparr>team_name = ''B''\<rparr>\<rparr>,
      ball = None,
      gapStates = (\<lambda>_. None)\<rparr>"

section \<open>Properties of the playback buffer\<close>

text \<open>
  Claim C9.  For a buffer of three frames with timestamps 0, 100 and 200 (whatever their
  samples), a query at 150 returns the frames at 100 and 200, a query at -5 returns the
  first frame twice, and a query at 500 returns the last frame twice.
\<close>

theorem C9_three_frame_lookup:
  fixes ps0 ps1 ps2 :: "sample list"
  defines "f0 \<equiv> \<lparr>players = ps0, videoTime = 0\<rparr>"
    and "f1 \<equiv> \<lparr>players = ps1, videoTime = 100\<rparr>"
    and "f2 \<equiv> \<lparr>players = ps2, videoTime = 200\<rparr>"
  shows "findFramesForInterpolation \<lparr>frames = [f0, f1, f2]\<rparr> 150 = Some \<lparr>prev = Some f1, nxt = Some f2\<rparr>
       \<and> findFramesForInterpolation \<lparr>frames = [f0, f1, f2]\<rparr> (- 5) = Some \<lparr>prev = Some f0, nxt = Some f0\<rparr>
       \<and> findFramesForInterpolation \<lparr>frames = [f0, f1, f2]\<rparr> 500 = Some \<lparr>prev = Some f2, nxt = Some f2\<rparr>"
  unfolding f0_def f1_def f2_def
  by (simp add: findFramesForInterpolation_def findIndex_def first_def last_frame_def elemAt_def)

text \<open>
  Claim C10.  A buffer with fewer than two frames answers every query with \<open>null\<close>; in
  particular a buffer of exactly one frame does so at that frame's own timestamp.
\<close>

theorem C10_short_buffer_null:
  "length (frames b) < 2 \<Longrightarrow> findFramesForInterpolation b t = None"
  by (simp add: findFramesForInterpolation_def)

theorem C10_short_buffer_null_witness:
  "length (frames \<lparr>frames = [\<lparr>players = [], videoTime = 40\<rparr>]\<rparr>) < 2
   \<and> findFramesForInterpolation \<lparr>frames = [\<lparr>players = [], videoTime = 40\<rparr>]\<rparr> 40 = None"
  using C10_short_buffer_null [of "\<lparr>frames = [\<lparr>players = [], videoTime = 40\<rparr>]\<rparr>" 40]
  by simp

section \<open>Properties of the geometry utilities\<close>

lemma distanceTo_same_yz:
  "vy a = vy b \<Longrightarrow> vz a = vz b \<Longrightarrow> distanceTo a b = \<bar>vx a - vx b\<bar>"
  by (simp add: distanceTo_def distanceToSquared_def Let_def)



section \<open>Properties of the score calculators\<close>

lemma tcm_Undefined:
  "calculateTeamControlMetrics t ps Undefined =
     Inr \<lparr>fastestTimeToArrival =
            (if ps = [] then 99
             else finiteOr 99 (math_min (map (\<lambda>p. distanceTo (mesh_position p) t / max (currentSpeed p) 1) ps))),
          ttas = map (\<lambda>p. distanceTo (mesh_position p) t / max (currentSpeed p) 1) ps\<rparr>"
  by (simp add: calculateTeamControlMetrics_def Let_def)

lemma one_plus_exp_nonzero [simp]: "1 + exp (x :: real) \<noteq> 0"
  using exp_gt_zero [of x] by linarith

lemma scaled_bounds:
  fixes E :: real
  assumes "E \<le> 1" "0 < E"
  shows "0 \<le> (2 / 10) * (1 - (6 / 10) * E)" "(2 / 10) * (1 - (6 / 10) * E) \<le> 1"
  using assms by (auto simp add: algebra_simps)

lemma strategic_total: "\<exists>b. calculateStrategicBonus q g ds as dir = Inr b"
  by (simp add: calculateStrategicBonus_def tcm_Undefined Let_def split: prod.splits)

lemma threat_total: "\<exists>th. calculateThreatPotential q g ds as dir = Inr th"
proof -
  obtain b where "calculateStrategicBonus q g ds as dir = Inr b" using strategic_total by blast
  then show ?thesis by (simp add: calculateThreatPotential_def Let_def)
qed

lemma exploit_defence_total: "\<exists>a b. exploit_defence q ds = Inr (a, b)"
  by (simp add: exploit_defence_def tcm_Undefined Let_def)

lemma exploit_attack_None:
  "exploit_attack q as None =
     (let receivers = filter (\<lambda>p. distanceTo (mesh_position p) (center q) < 20) as;
          ts = map (\<lambda>p. distanceTo (mesh_position p) (center q) / max (currentSpeed p) 1) receivers
      in if receivers = [] then Inr (99, 0, 0)
         else Inr (finiteOr 99 (math_min ts),
                   reduce_sum (map (\<lambda>t. exp (- 0.15 * t)) ts),
                   tanh (reduce_sum (map (\<lambda>t. exp (- 0.15 * t)) ts) * 2)))"
  by (simp add: exploit_attack_def tcm_Undefined Let_def comp_def)

lemma exploit_None_total: "\<exists>ex. calculateExploitationScore q ds as None = Inr ex"
proof -
  obtain a b where d: "exploit_defence q ds = Inr (a, b)" using exploit_defence_total by blast
  obtain a' b' c' where a: "exploit_attack q as None = Inr (a', b', c')"
    by (cases "exploit_attack q as None") (auto simp add: exploit_attack_None Let_def split: if_splits)
  show ?thesis by (simp add: calculateExploitationScore_def d a Let_def)
qed

lemma exploit_attFastestTime:
  assumes "calculateExploitationScore q ds as carrier = Inr ex"
    and "exploit_attack q as carrier = Inr (a, b, c)"
  shows "attFastestTime ex = a"
  using assms
  by (auto simp add: calculateExploitationScore_def Let_def split: sum.splits prod.splits)

lemma calculateLs_unfold:
  assumes "calculateThreatPotential q g ds as dir = Inr th"
    and "calculateExploitationScore q ds as None = Inr ex"
  shows "calculateLs q c ds as g dir =
     Inr \<lparr>final_ls = 1 / (1 + exp (- 10 * ((4/10 * (potential th * exploit_finalScore ex) + (1 - 4/10) * ((potential th + exploit_finalScore ex) / 2)) * (5/10 + 5/10 * feasy_finalScore (calculateFeasibilityScore q c ds)) - 5/10))),
          threatPotentialScore = potential th,
          exploitationScore = exploit_finalScore ex,
          feasibilityScore = feasy_finalScore (calculateFeasibilityScore q c ds),
          details = \<lparr>threat = th, exploit = ex, feasy = calculateFeasibilityScore q c ds,
             final = \<lparr>situationValue = 4/10 * (potential th * exploit_finalScore ex) + (1 - 4/10) * ((potential th + exploit_finalScore ex) / 2),
                      raw_ls = (4/10 * (potential th * exploit_finalScore ex) + (1 - 4/10) * ((potential th + exploit_finalScore ex) / 2)) * (5/10 + 5/10 * feasy_finalScore (calculateFeasibilityScore q c ds))\<rparr>\<rparr>\<rparr>"
  by (simp add: calculateLs_def assms Let_def)

lemma aggregation_forms:
  fixes T E F :: real
  shows "4/10 * (T * E) + (1 - 4/10) * ((T + E) / 2) = 0.4 * (T * E) + 0.6 * (T + E) / 2"
    and "5/10 + 5/10 * F = 0.5 + 0.5 * F"
    and "- 10 * (x - 5/10) = - 10 * (x - 0.5)"
  by simp_all

text \<open>
  Claim C3.  \<open>calculateLs\<close> returns; with \<open>T\<close>, \<open>E\<close>, \<open>F\<close> the scores of the three
  sub-calculators, its situation value is \<open>0.4 (T E) + 0.6 (T + E) / 2\<close>, its raw score is
  the situation value times \<open>0.5 + 0.5 F\<close>, and its final score is the logistic function
  \<open>1 / (1 + exp (-10 (raw - 0.5)))\<close> of the raw score, passed through the finiteness guard
  that replaces a non-finite number by 0.
\<close>

theorem C3_aggregation:
  "\<exists>r th ex.
     calculateLs q c ds as g dir = Inr r
     \<and> calculateThreatPotential q g ds as dir = Inr th
     \<and> calculateExploitationScore q ds as None = Inr ex
     \<and> (let T = potential th;
             E = exploit_finalScore ex;
             F = feasy_finalScore (calculateFeasibilityScore q c ds);
             sv = 0.4 * (T * E) + 0.6 * (T + E) / 2;
             raw = sv * (0.5 + 0.5 * F);
             fin = 1 / (1 + exp (- 10 * (raw - 0.5)))
         in threatPotentialScore r = T \<and> exploitationScore r = E \<and> feasibilityScore r = F
            \<and> situationValue (final (details r)) = sv
            \<and> raw_ls (final (details r)) = raw
            \<and> final_ls r = fin
            \<and> final_ls r = finiteOr 0 (Fin fin))
     \<and> finiteOr 0 Infinity = 0 \<and> finiteOr 0 NegInfinity = 0 \<and> finiteOr 0 NaN = 0"
proof -
  obtain th where th: "calculateThreatPotential q g ds as dir = Inr th" using threat_total by blast
  obtain ex where ex: "calculateExploitationScore q ds as None = Inr ex" using exploit_None_total by blast
  define F where "F = feasy_finalScore (calculateFeasibilityScore q c ds)"
  define sv where "sv = 0.4 * (potential th * exploit_finalScore ex) + 0.6 * (potential th + exploit_finalScore ex) / 2"
  define raw where "raw = sv * (0.5 + 0.5 * F)"
  define fin where "fin = 1 / (1 + exp (- 10 * (raw - 0.5)))"
  define r where "r = \<lparr>final_ls = fin, threatPotentialScore = potential th,
          exploitationScore = exploit_finalScore ex, feasibilityScore = F,
          details = \<lparr>threat = th, exploit = ex, feasy = calculateFeasibilityScore q c ds,
             final = \<lparr>situationValue = sv, raw_ls = raw\<rparr>\<rparr>\<rparr>"
  have run: "calculateLs q c ds as g dir = Inr r"
    unfolding calculateLs_unfold [OF th ex] r_def fin_def raw_def sv_def F_def
    by simp
  have sel: "threatPotentialScore r = potential th" "exploitationScore r = exploit_finalScore ex"
    "feasibilityScore r = F" "situationValue (final (details r)) = sv"
    "raw_ls (final (details r)) = raw" "final_ls r = fin"
    by (simp_all add: r_def)
  have body: "(let T = potential th;
             E = exploit_finalScore ex;
             F = feasy_finalScore (calculateFeasibilityScore q c ds);
             sv = 0.4 * (T * E) + 0.6 * (T + E) / 2;
             raw = sv * (0.5 + 0.5 * F);
             fin = 1 / (1 + exp (- 10 * (raw - 0.5)))
         in threatPotentialScore r = T \<and> exploitationScore r = E \<and> feasibilityScore r = F
            \<and> situationValue (final (details r)) = sv
            \<and> raw_ls (final (details r)) = raw
            \<and> final_ls r = fin
            \<and> final_ls r = finiteOr 0 (Fin fin))"
    unfolding Let_def sel
    by (simp only: F_def [symmetric] sv_def [symmetric] raw_def [symmetric] fin_def [symmetric] finiteOr.simps simp_thms)
  show ?thesis
    using run th ex body by (intro exI conjI) simp_all
qed

text \<open>
  Claim C8.  With no defender and no attacker \<open>calculateExploitationScore\<close> returns (for
  any carrier argument) the final score \<open>0.2 (1 - 0.6 exp (-9.9))\<close>, a number between 0 and
  1, and \<open>calculateStrategicBonus\<close> returns exactly 0.
\<close>

theorem C8_empty_teams:
  "\<exists>ex. calculateExploitationScore q [] [] carrier = Inr ex
        \<and> exploit_finalScore ex = (2 / 10) * (1 - (6 / 10) * exp (- (99 / 10)))
        \<and> 0 \<le> exploit_finalScore ex \<and> exploit_finalScore ex \<le> 1
        \<and> calculateStrategicBonus q g [] [] dir = Inr 0"
proof -
  have e: "exp (- (99 / 10) :: real) \<le> 1" by simp
  have p: "0 < exp (- (99 / 10) :: real)" by simp
  note b = scaled_bounds [OF e p]
  have m: "min 1 ((2 / 10) * (1 - (6 / 10) * exp (- (99 / 10) :: real))) = (2 / 10) * (1 - (6 / 10) * exp (- (99 / 10)))"
    using b(2) by (rule min_absorb2)
  have v: "calculateExploitationScore q [] [] carrier = Inr \<lparr>exploit_finalScore = (2 / 10) * (1 - (6 / 10) * exp (- (99 / 10))),
       defFastestTime = 99, defRecoveryScore = exp (- (99/10)), defSwarmScore = 1,
       defensiveControl = exp (- (99/10)) * (6/10), attFastestTime = 99, attSupportScore = 0,
       overloadFactor = 1/2, attackingPotential = 2/10, speedBonus = 1\<rparr>"
    using m by (simp add: calculateExploitationScore_def exploit_defence_def exploit_attack_def Let_def)
  have s: "calculateStrategicBonus q g [] [] dir = Inr 0"
    by (simp add: calculateStrategicBonus_def)
  show ?thesis unfolding v s using b by simp
qed

text \<open>
  Claim C7, the code at the inputs where it departs from the claim.  A defender standing
  exactly on the carrier is at distance 0, which \<open>||\<close> replaces by 99: the pressure factor
  is the logistic value at 99, not at 0.  With no defender the distance is \<open>Infinity\<close>,
  which \<open>||\<close> keeps: the reported distance is \<open>Infinity\<close> and the factor is exactly 1.
\<close>

theorem C7_pressure_factor_code:
  "pressureFactor (calculateFeasibilityScore q (example_player ''c'' ''A'' ''CM'' 3 4 0)
                     [example_player ''d'' ''B'' ''CB'' 3 4 0]) = Fin (1 / (1 + exp (- 144)))
   \<and> distanceTo (mesh_position (example_player ''c'' ''A'' ''CM'' 3 4 0))
                 (mesh_position (example_player ''d'' ''B'' ''CB'' 3 4 0)) = 0
   \<and> pressureFactor (calculateFeasibilityScore q c []) = Fin 1
   \<and> pressureDist (calculateFeasibilityScore q c []) = Infinity"
  by (simp add: calculateFeasibilityScore_def findClosestPlayer_def example_player_def Vector3_def
      distanceTo_def distanceToSquared_def or_else_def num_minus_def Let_def)

text \<open>
  Claim C5, the code at an input where it departs from the claim.  Team B defends the goal
  at \<open>x = 52.5\<close>; its four deepest outfield players stand at 40, 38, 36 and 34 (mean 37).
  \<open>calculateGlobalFeatures\<close> measures from the opposite goal and reports 27, the mean of the
  four most advanced players; \<open>getDefensiveLineMetrics\<close> called with the own goal's side
  counts the goalkeeper and reports 41.
\<close>

theorem C5_line_depth_code:
  "defensive_line_depth (calculateGlobalFeatures example_manager ''A'' 1) = 27
   \<and> line_depth (getDefensiveLineMetrics (getAllTeamPlayers example_manager ''B'') 1) = 41"
  by (simp add: calculateGlobalFeatures_def getDefensiveLineMetrics_def getAllTeamPlayers_def
      example_manager_def example_player_def Vector3_def Let_def)

text \<open>
  Claim C1, the code at an input where it departs from the claim.  The carrier stands 5 and
  a second attacker 10 from the centre of the quadrant.  \<open>calculateLs\<close> passes no carrier
  on, so the carrier stays among the receivers and the direct model is used: the fastest
  attacker time is 5.  The intercept model for the second attacker alone gives 5/4, and a
  carrier object handed to \<open>calculateExploitationScore\<close> raises.
\<close>

theorem C1_receivers_code:
  "\<exists>r. calculateLs example_lq (example_player ''c'' ''A'' ''CM'' 5 0 0) ds
           [example_player ''c'' ''A'' ''CM'' 5 0 0, example_player ''a1'' ''A'' ''ST'' 10 0 0] g dir = Inr r
        \<and> attFastestTime (exploit (details r)) = 5
        \<and> calculateTeamControlMetrics (center example_lq) [example_player ''a1'' ''A'' ''ST'' 10 0 0]
             (PositionArg (mesh_position (example_player ''c'' ''A'' ''CM'' 5 0 0)))
           = Inr \<lparr>fastestTimeToArrival = 5 / 4, ttas = [5 / 4]\<rparr>
        \<and> calculateExploitationScore example_lq ds
             [example_player ''c'' ''A'' ''CM'' 5 0 0, example_player ''a1'' ''A'' ''ST'' 10 0 0]
             (Some (example_player ''c'' ''A'' ''CM'' 5 0 0)) = Inl TypeError"
proof -
  let ?c = "example_player ''c'' ''A'' ''CM'' 5 0 0"
  let ?a = "example_player ''a1'' ''A'' ''ST'' 10 0 0"
  obtain th where th: "calculateThreatPotential example_lq g ds [?c, ?a] dir = Inr th"
    using threat_total by blast
  obtain ex where ex: "calculateExploitationScore example_lq ds [?c, ?a] None = Inr ex"
    using exploit_None_total by blast
  have dc: "distanceTo (mesh_position ?c) (center example_lq) = 5"
    by (simp add: distanceTo_same_yz example_player_def example_lq_def Vector3_def)
  have da: "distanceTo (mesh_position ?a) (center example_lq) = 10"
    by (simp add: distanceTo_same_yz example_player_def example_lq_def Vector3_def)
  have sp: "currentSpeed ?c = 0" "currentSpeed ?a = 0" by (simp_all add: example_player_def)
  have att: "exploit_attack example_lq [?c, ?a] None
               = Inr (5, reduce_sum [exp (- 0.15 * 5), exp (- 0.15 * 10)],
                      tanh (reduce_sum [exp (- 0.15 * 5), exp (- 0.15 * 10)] * 2))"
    by (simp add: exploit_attack_None dc da sp Let_def)
  have f: "attFastestTime ex = 5" by (rule exploit_attFastestTime [OF ex att])
  have dca: "distanceTo (mesh_position ?c) (center example_lq) / 15 = 1 / 3" by (simp add: dc)
  have ip: "distanceTo (mesh_position ?a)
              (lerpVectors (center example_lq)
                 (addScaledVector (mesh_position ?a) (velocity ?a) (1 / 3)) (1 / 2)) = 5"
    by (simp add: distanceTo_same_yz example_player_def example_lq_def Vector3_def
        lerpVectors_def addScaledVector_def)
  have tcm: "calculateTeamControlMetrics (center example_lq) [?a] (PositionArg (mesh_position ?c))
               = Inr \<lparr>fastestTimeToArrival = 5 / 4, ttas = [5 / 4]\<rparr>"
    by (simp add: calculateTeamControlMetrics_def Let_def dca ip sp)
  obtain a b where d: "exploit_defence example_lq ds = Inr (a, b)"
    using exploit_defence_total by blast
  have same: "same_object ?c ?c" "\<not> same_object ?a ?c"
    by (simp_all add: same_object_def example_player_def)
  have attc: "exploit_attack example_lq [?c, ?a] (Some ?c) = Inl TypeError"
    by (simp add: exploit_attack_def same da Let_def calculateTeamControlMetrics_def)
  have err: "calculateExploitationScore example_lq ds [?c, ?a] (Some ?c) = Inl TypeError"
    by (simp add: calculateExploitationScore_def d attc Let_def)
  show ?thesis
    unfolding calculateLs_unfold [OF th ex] by (simp add: f tcm err)
qed

section \<open>Order independence of the scores\<close>

lemma math_min_Cons: "math_min (a # as) = Fin (Min (set (a # as)))"
proof (induction as arbitrary: a)
  case Nil
  show ?case by simp
next
  case (Cons b bs)
  have "math_min (a # b # bs) = Fin (min a (Min (set (b # bs))))"
    using Cons [of b] by simp
  also have "min a (Min (set (b # bs))) = Min (set (a # b # bs))"
    by (simp add: Min_insert [symmetric] del: Min_insert)
  finally show ?case .
qed

lemma math_min_eq: "math_min as = (if as = [] then Infinity else Fin (Min (set as)))"
proof (cases as)
  case Nil
  then show ?thesis by simp
next
  case (Cons b bs)
  then show ?thesis by (simp only: math_min_Cons list.simps if_False)
qed

lemma math_min_perm: "mset as = mset bs \<Longrightarrow> math_min as = math_min bs"
proof -
  assume h: "mset as = mset bs"
  then have "set as = set bs" by (rule mset_eq_setD)
  moreover from h have "(as = []) = (bs = [])" by (metis mset_zero_iff)
  ultimately show ?thesis by (simp add: math_min_eq)
qed

lemma reduce_sum_acc: "foldl (\<lambda>s v. s + v) a as = a + sum_list as"
  by (induction as arbitrary: a) (simp_all add: add.assoc)

lemma reduce_sum_eq: "reduce_sum as = sum_list as"
  by (simp add: reduce_sum_def reduce_sum_acc)

lemma reduce_sum_perm: "mset as = mset bs \<Longrightarrow> reduce_sum (map h as) = reduce_sum (map h bs)"
proof -
  assume "mset as = mset bs"
  then have "mset (map h as) = mset (map h bs)" by simp
  then have "sum_mset (mset (map h as)) = sum_mset (mset (map h bs))" by simp
  then show ?thesis by (simp only: reduce_sum_eq sum_mset_sum_list)
qed

lemma empty_perm: "mset as = mset bs \<Longrightarrow> (as = []) = (bs = [])"
  by (metis mset_zero_iff)

lemma filter_perm: "mset as = mset bs \<Longrightarrow> mset (filter P as) = mset (filter P bs)"
  by (simp only: mset_filter)

lemma count_perm: "mset as = mset bs \<Longrightarrow> length (filter P as) = length (filter P bs)"
proof -
  assume "mset as = mset bs"
  then have "mset (filter P as) = mset (filter P bs)" by (rule filter_perm)
  then show ?thesis by (rule mset_eq_length)
qed

lemma closest_loop_Fin:
  "closest_distance (closest_loop t ps cp (Fin m))
     = Fin (fold min (map (\<lambda>p. distanceTo (mesh_position p) t) ps) m)"
proof (induction ps arbitrary: cp m)
  case Nil
  show ?case by simp
next
  case (Cons p ps)
  show ?case by (simp add: Cons Let_def min_def)
qed

lemma findClosestPlayer_distance:
  "closest_distance (findClosestPlayer t ps) = math_min (map (\<lambda>p. distanceTo (mesh_position p) t) ps)"
proof (cases ps)
  case Nil
  then show ?thesis by (simp add: findClosestPlayer_def)
next
  case (Cons p ps')
  have "closest_distance (findClosestPlayer t (p # ps'))
          = Fin (fold min (map (\<lambda>p. distanceTo (mesh_position p) t) ps') (distanceTo (mesh_position p) t))"
    by (simp add: findClosestPlayer_def closest_loop_Fin Let_def)
  also have "\<dots> = Fin (Min (set (map (\<lambda>p. distanceTo (mesh_position p) t) (p # ps'))))"
    by (simp only: list.map Min.set_eq_fold)
  finally show ?thesis by (simp only: Cons math_min_Cons list.map)
qed

lemma offside_neg_keeps_last:
  "l \<noteq> None \<Longrightarrow> snd (offside_loop_neg ds off l) \<noteq> None"
  by (induction ds arbitrary: off l) simp_all

lemma offside_pos_keeps_last:
  "l \<noteq> None \<Longrightarrow> snd (offside_loop_pos ds off l) \<noteq> None"
  by (induction ds arbitrary: off l) simp_all

lemma offside_neg_Fin:
  "fst (offside_loop_neg ds (Fin m) l)
     = Fin (fold min (map (\<lambda>d. vx (mesh_position d)) (filter (\<lambda>d. srole (playerData d) \<noteq> ''GK'') ds)) m)"
proof (induction ds arbitrary: m l)
  case Nil
  show ?case by simp
next
  case (Cons d ds)
  show ?case by (simp add: Cons min_def)
qed

lemma offside_pos_Fin:
  "fst (offside_loop_pos ds (Fin m) l)
     = Fin (fold max (map (\<lambda>d. vx (mesh_position d)) (filter (\<lambda>d. srole (playerData d) \<noteq> ''GK'') ds)) m)"
proof (induction ds arbitrary: m l)
  case Nil
  show ?case by simp
next
  case (Cons d ds)
  show ?case by (simp add: Cons max_def)
qed

lemma offside_neg_start:
  "fst (offside_loop_neg ds Infinity None)
     = (let xs = map (\<lambda>d. vx (mesh_position d)) (filter (\<lambda>d. srole (playerData d) \<noteq> ''GK'') ds)
        in if xs = [] then Infinity else Fin (Min (set xs)))
   \<and> (snd (offside_loop_neg ds Infinity None) = None)
     = (filter (\<lambda>d. srole (playerData d) \<noteq> ''GK'') ds = [])"
proof (induction ds)
  case Nil
  show ?case by simp
next
  case (Cons d ds)
  show ?case
  proof (cases "srole (playerData d) \<noteq> ''GK''")
    case True
    have f: "fold min (map (\<lambda>d. vx (mesh_position d)) (filter (\<lambda>d. srole (playerData d) \<noteq> ''GK'') ds)) (vx (mesh_position d))
             = Min (set (vx (mesh_position d) # map (\<lambda>d. vx (mesh_position d)) (filter (\<lambda>d. srole (playerData d) \<noteq> ''GK'') ds)))"
      by (simp only: Min.set_eq_fold)
    show ?thesis using True offside_neg_keeps_last [of "Some d" ds "Fin (vx (mesh_position d))"]
      by (simp add: offside_neg_Fin f Let_def del: Min_insert set_simps list.set)
  next
    case False
    then show ?thesis using Cons by simp
  qed
qed

lemma offside_pos_start:
  "fst (offside_loop_pos ds NegInfinity None)
     = (let xs = map (\<lambda>d. vx (mesh_position d)) (filter (\<lambda>d. srole (playerData d) \<noteq> ''GK'') ds)
        in if xs = [] then NegInfinity else Fin (Max (set xs)))
   \<and> (snd (offside_loop_pos ds NegInfinity None) = None)
     = (filter (\<lambda>d. srole (playerData d) \<noteq> ''GK'') ds = [])"
proof (induction ds)
  case Nil
  show ?case by simp
next
  case (Cons d ds)
  show ?case
  proof (cases "srole (playerData d) \<noteq> ''GK''")
    case True
    have f: "fold max (map (\<lambda>d. vx (mesh_position d)) (filter (\<lambda>d. srole (playerData d) \<noteq> ''GK'') ds)) (vx (mesh_position d))
             = Max (set (vx (mesh_position d) # map (\<lambda>d. vx (mesh_position d)) (filter (\<lambda>d. srole (playerData d) \<noteq> ''GK'') ds)))"
      by (simp only: Max.set_eq_fold)
    show ?thesis using True offside_pos_keeps_last [of "Some d" ds "Fin (vx (mesh_position d))"]
      by (simp add: offside_pos_Fin f Let_def del: Max_insert set_simps list.set)
  next
    case False
    then show ?thesis using Cons by simp
  qed
qed

lemma offside_neg_perm:
  assumes "mset ds = mset ds'"
  shows "fst (offside_loop_neg ds Infinity None) = fst (offside_loop_neg ds' Infinity None)"
    and "(snd (offside_loop_neg ds Infinity None) = None) = (snd (offside_loop_neg ds' Infinity None) = None)"
proof -
  let ?P = "\<lambda>d. srole (playerData d) \<noteq> ''GK''"
  let ?x = "\<lambda>d. vx (mesh_position d)"
  have m: "mset (map ?x (filter ?P ds)) = mset (map ?x (filter ?P ds'))"
    using filter_perm [OF assms, of ?P] by simp
  have s: "set (map ?x (filter ?P ds)) = set (map ?x (filter ?P ds'))"
    using m by (rule mset_eq_setD)
  have e: "(map ?x (filter ?P ds) = []) = (map ?x (filter ?P ds') = [])"
    using m by (rule empty_perm)
  show "fst (offside_loop_neg ds Infinity None) = fst (offside_loop_neg ds' Infinity None)"
    using s e by (simp only: offside_neg_start Let_def)
  show "(snd (offside_loop_neg ds Infinity None) = None) = (snd (offside_loop_neg ds' Infinity None) = None)"
    using e by (simp only: offside_neg_start map_is_Nil_conv)
qed

lemma offside_pos_perm:
  assumes "mset ds = mset ds'"
  shows "fst (offside_loop_pos ds NegInfinity None) = fst (offside_loop_pos ds' NegInfinity None)"
    and "(snd (offside_loop_pos ds NegInfinity None) = None) = (snd (offside_loop_pos ds' NegInfinity None) = None)"
proof -
  let ?P = "\<lambda>d. srole (playerData d) \<noteq> ''GK''"
  let ?x = "\<lambda>d. vx (mesh_position d)"
  have m: "mset (map ?x (filter ?P ds)) = mset (map ?x (filter ?P ds'))"
    using filter_perm [OF assms, of ?P] by simp
  have s: "set (map ?x (filter ?P ds)) = set (map ?x (filter ?P ds'))"
    using m by (rule mset_eq_setD)
  have e: "(map ?x (filter ?P ds) = []) = (map ?x (filter ?P ds') = [])"
    using m by (rule empty_perm)
  show "fst (offside_loop_pos ds NegInfinity None) = fst (offside_loop_pos ds' NegInfinity None)"
    using s e by (simp only: offside_pos_start Let_def)
  show "(snd (offside_loop_pos ds NegInfinity None) = None) = (snd (offside_loop_pos ds' NegInfinity None) = None)"
    using e by (simp only: offside_pos_start map_is_Nil_conv)
qed

lemma tcm_fastest_perm:
  assumes "mset ps = mset ps'"
    and "calculateTeamControlMetrics t ps Undefined = Inr m"
    and "calculateTeamControlMetrics t ps' Undefined = Inr m'"
  shows "fastestTimeToArrival m = fastestTimeToArrival m'"
    and "reduce_sum (map h (ttas m)) = reduce_sum (map h (ttas m'))"
proof -
  let ?f = "\<lambda>p. distanceTo (mesh_position p) t / max (currentSpeed p) 1"
  have e: "(ps = []) = (ps' = [])" using assms(1) by (rule empty_perm)
  have "mset (map ?f ps) = mset (map ?f ps')" using assms(1) by simp
  then have mm: "math_min (map ?f ps) = math_min (map ?f ps')" by (rule math_min_perm)
  show "fastestTimeToArrival m = fastestTimeToArrival m'"
    using assms(2,3) e mm by (auto simp add: tcm_Undefined)
  have "reduce_sum (map (h \<circ> ?f) ps) = reduce_sum (map (h \<circ> ?f) ps')"
    using assms(1) by (rule reduce_sum_perm)
  then show "reduce_sum (map h (ttas m)) = reduce_sum (map h (ttas m'))"
    using assms(2,3) by (auto simp add: tcm_Undefined)
qed

lemma strategic_perm:
  assumes d: "mset ds = mset ds'" and a: "mset as = mset as'"
  shows "calculateStrategicBonus q g ds as dir = calculateStrategicBonus q g ds' as' dir"
proof -
  have ed: "(ds = []) = (ds' = [])" using d by (rule empty_perm)
  have ea: "(as = []) = (as' = [])" using a by (rule empty_perm)
  obtain ma where ma: "calculateTeamControlMetrics (center q) as Undefined = Inr ma"
    by (simp add: tcm_Undefined)
  obtain ma' where ma': "calculateTeamControlMetrics (center q) as' Undefined = Inr ma'"
    by (simp add: tcm_Undefined)
  obtain md where md: "calculateTeamControlMetrics (center q) ds Undefined = Inr md"
    by (simp add: tcm_Undefined)
  obtain md' where md': "calculateTeamControlMetrics (center q) ds' Undefined = Inr md'"
    by (simp add: tcm_Undefined)
  have fa: "fastestTimeToArrival ma = fastestTimeToArrival ma'"
    by (rule tcm_fastest_perm(1) [OF a ma ma'])
  have fd: "fastestTimeToArrival md = fastestTimeToArrival md'"
    by (rule tcm_fastest_perm(1) [OF d md md'])
  note n = offside_neg_perm [OF d]
  note p = offside_pos_perm [OF d]
  show ?thesis
    unfolding calculateStrategicBonus_def ma ma' md md'
    by (simp add: Let_def split_beta ed ea fa fd n p)
qed

lemma threat_perm:
  assumes d: "mset ds = mset ds'" and a: "mset as = mset as'"
  shows "calculateThreatPotential q g ds as dir = calculateThreatPotential q g ds' as' dir"
  by (simp add: calculateThreatPotential_def strategic_perm [OF d a])

lemma exploit_defence_perm:
  assumes d: "mset ds = mset ds'"
  shows "exploit_defence q ds = exploit_defence q ds'"
proof -
  let ?P = "\<lambda>p. distanceTo (mesh_position p) (center q) < 20"
  have f: "mset (filter ?P ds) = mset (filter ?P ds')" using d by (rule filter_perm)
  have e: "(filter ?P ds = []) = (filter ?P ds' = [])" using f by (rule empty_perm)
  obtain m where m: "calculateTeamControlMetrics (center q) (filter ?P ds) Undefined = Inr m"
    by (simp add: tcm_Undefined)
  obtain m' where m': "calculateTeamControlMetrics (center q) (filter ?P ds') Undefined = Inr m'"
    by (simp add: tcm_Undefined)
  note t = tcm_fastest_perm [OF f m m']
  show ?thesis
    unfolding exploit_defence_def by (simp add: Let_def m m' e t)
qed

lemma exploit_attack_perm:
  assumes a: "mset as = mset as'"
  shows "exploit_attack q as None = exploit_attack q as' None"
proof -
  let ?P = "\<lambda>p. distanceTo (mesh_position p) (center q) < 20"
  have f: "mset (filter ?P as) = mset (filter ?P as')" using a by (rule filter_perm)
  have e: "(filter ?P as = []) = (filter ?P as' = [])" using f by (rule empty_perm)
  obtain m where m: "calculateTeamControlMetrics (center q) (filter ?P as) Undefined = Inr m"
    by (simp add: tcm_Undefined)
  obtain m' where m': "calculateTeamControlMetrics (center q) (filter ?P as') Undefined = Inr m'"
    by (simp add: tcm_Undefined)
  note t = tcm_fastest_perm [OF f m m']
  show ?thesis
    unfolding exploit_attack_def by (simp add: Let_def m m' e t)
qed

lemma exploit_perm:
  assumes d: "mset ds = mset ds'" and a: "mset as = mset as'"
  shows "calculateExploitationScore q ds as None = calculateExploitationScore q ds' as' None"
  by (simp only: calculateExploitationScore_def exploit_defence_perm [OF d] exploit_attack_perm [OF a])

lemma feasibility_perm:
  assumes d: "mset ds = mset ds'"
  shows "calculateFeasibilityScore q c ds = calculateFeasibilityScore q c ds'"
proof -
  have "mset (map (\<lambda>p. distanceTo (mesh_position p) (mesh_position c)) ds)
        = mset (map (\<lambda>p. distanceTo (mesh_position p) (mesh_position c)) ds')"
    using d by simp
  then have "math_min (map (\<lambda>p. distanceTo (mesh_position p) (mesh_position c)) ds)
        = math_min (map (\<lambda>p. distanceTo (mesh_position p) (mesh_position c)) ds')"
    by (rule math_min_perm)
  then have m: "closest_distance (findClosestPlayer (mesh_position c) ds)
           = closest_distance (findClosestPlayer (mesh_position c) ds')"
    by (simp only: findClosestPlayer_distance)
  note n = count_perm [OF d]
  show ?thesis
    unfolding calculateFeasibilityScore_def by (simp only: m n)
qed

lemma unit_fraction_range:
  fixes E :: real
  shows "0 < E \<Longrightarrow> 0 < 1 / (1 + E) \<and> 1 / (1 + E) < 1"
  by (simp add: field_simps)

lemma logistic_range: "0 < 1 / (1 + exp (x :: real)) \<and> 1 / (1 + exp x) < 1"
  by (rule unit_fraction_range) simp

text \<open>
  With exact sums \<open>calculateLs\<close> returns a final score between 0 and 1 and gives the same
  result for reordered player lists: the lists are read only through minima, sums and
  counts.  The program adds doubles in list order, so there a reordered list can change the
  last bits of a sum; that rounding is not part of this model, and the lemma says nothing
  about it.
\<close>

lemma calculateLs_exact_order_independent:
  assumes "mset defenders' = mset defenders" and "mset attackers' = mset attackers"
  shows "\<exists>r. calculateLs q c defenders attackers g dir = Inr r
            \<and> calculateLs q c defenders' attackers' g dir = Inr r
            \<and> 0 \<le> final_ls r \<and> final_ls r \<le> 1"
proof -
  obtain th where th: "calculateThreatPotential q g defenders attackers dir = Inr th"
    using threat_total by blast
  obtain ex where ex: "calculateExploitationScore q defenders attackers None = Inr ex"
    using exploit_None_total by blast
  have th': "calculateThreatPotential q g defenders' attackers' dir = Inr th"
    using th threat_perm [OF assms] by simp
  have ex': "calculateExploitationScore q defenders' attackers' None = Inr ex"
    using ex exploit_perm [OF assms] by simp
  have fe: "calculateFeasibilityScore q c defenders' = calculateFeasibilityScore q c defenders"
    by (rule feasibility_perm [OF assms(1)])
  have same: "calculateLs q c defenders' attackers' g dir = calculateLs q c defenders attackers g dir"
    by (simp only: calculateLs_unfold [OF th ex] calculateLs_unfold [OF th' ex'] fe)
  obtain r where r: "calculateLs q c defenders attackers g dir = Inr r"
    by (simp add: calculateLs_unfold [OF th ex])
  have "\<exists>x. final_ls r = 1 / (1 + exp x)"
    using r unfolding calculateLs_unfold [OF th ex] by auto
  then obtain x where "final_ls r = 1 / (1 + exp x)" by blast
  then have "0 \<le> final_ls r \<and> final_ls r \<le> 1"
    using logistic_range [of x] by simp
  then show ?thesis using r same by simp
qed

section \<open>The interpolation update across a gap\<close>

lemma map_get_map_set:
  "map_get (map_set k v m) k' = (if k' = k then Some v else map_get m k')"
  by (induction m) (auto simp add: map_get_def)

lemma new_Map_snoc: "new_Map (kvs @ [(k, v)]) = map_set k v (new_Map kvs)"
  by (simp add: new_Map_def)

lemma frame_lookup:
  "map_get (new_Map (map (\<lambda>p. (sid p, p)) ps)) e
     = (case filter (\<lambda>p. sid p = e) ps of [] \<Rightarrow> None | a # as \<Rightarrow> Some (last (a # as)))"
proof (induction ps rule: rev_induct)
  case Nil
  show ?case by (simp add: new_Map_def map_get_def)
next
  case (snoc a ps)
  show ?case
    using snoc
    by (auto simp add: new_Map_snoc map_get_map_set split: list.splits)
qed

lemma find_first_filter:
  "find_first P ps = (case filter P ps of [] \<Rightarrow> None | a # as \<Rightarrow> Some a)"
  by (induction ps) simp_all

lemma set_foldl_set_add: "set (foldl set_add acc as) = set acc \<union> set as"
  by (induction as arbitrary: acc) (auto simp add: set_add_def)

lemma foldl_keep:
  assumes est: "\<And>s. I s \<Longrightarrow> Q (f s e)"
    and keepQ: "\<And>s i. i \<noteq> e \<Longrightarrow> Q s \<Longrightarrow> Q (f s i)"
    and QI: "\<And>s. Q s \<Longrightarrow> I s"
  shows "Q s \<Longrightarrow> Q (foldl f s ids)"
proof (induction ids arbitrary: s)
  case Nil
  then show ?case by simp
next
  case (Cons i ids)
  have "Q (f s i)"
  proof (cases "i = e")
    case True
    then show ?thesis using est [OF QI [OF Cons.prems]] by simp
  next
    case False
    then show ?thesis using keepQ Cons.prems by blast
  qed
  then show ?case using Cons.IH by simp
qed

lemma foldl_establish:
  assumes est: "\<And>s. I s \<Longrightarrow> Q (f s e)"
    and keepI: "\<And>s i. i \<noteq> e \<Longrightarrow> I s \<Longrightarrow> I (f s i)"
    and keepQ: "\<And>s i. i \<noteq> e \<Longrightarrow> Q s \<Longrightarrow> Q (f s i)"
    and QI: "\<And>s. Q s \<Longrightarrow> I s"
  shows "I s \<Longrightarrow> e \<in> set ids \<Longrightarrow> Q (foldl f s ids)"
proof (induction ids arbitrary: s)
  case Nil
  then show ?case by simp
next
  case (Cons i ids)
  show ?case
  proof (cases "i = e")
    case True
    have "Q (f s e)" using est Cons.prems(1) by blast
    have "Q (foldl f (f s e) ids)"
    proof (rule foldl_keep [where I = I and Q = Q and f = f and e = e])
      show "\<And>s. I s \<Longrightarrow> Q (f s e)" by (rule est)
      show "\<And>s i. i \<noteq> e \<Longrightarrow> Q s \<Longrightarrow> Q (f s i)" by (rule keepQ)
      show "\<And>s. Q s \<Longrightarrow> I s" by (rule QI)
      show "Q (f s e)" by fact
    qed
    then show ?thesis using True by simp
  next
    case False
    have "I (f s i)" using keepI False Cons.prems(1) by blast
    moreover have "e \<in> set ids" using Cons.prems(2) False by simp
    ultimately show ?thesis using Cons.IH by simp
  qed
qed

lemma update_id_other:
  assumes "ident \<noteq> e"
  shows "map_get (playerMap (update_id pf nf alpha buf pm ident)) e = map_get (playerMap pm) e"
    and "gapStates (update_id pf nf alpha buf pm ident) e = gapStates pm e"
  using assms
  by (auto simp add: update_id_def Let_def map_get_map_set split_beta split: option.splits)

lemma update_id_live:
  assumes n: "map_get (new_Map (map (\<lambda>p. (sid p, p)) (players nf))) e = Some nd"
    and p: "map_get (new_Map (map (\<lambda>p. (sid p, p)) (players pf))) e = None"
  shows "\<exists>p. map_get (playerMap (update_id pf nf alpha buf pm e)) e = Some p
             \<and> \<not> isInferred p
             \<and> targetRoot p = Vector3 (sx nd / 100) (vy (mesh_position p)) (sy nd / 100)
             \<and> gapStates (update_id pf nf alpha buf pm e) e = None"
  by (cases "map_get (playerMap pm) e")
     (simp_all add: update_id_def Let_def n p map_get_map_set setInferred_def updateTarget_def
        new_Player_def Vector3_def)

lemma update_id_gap:
  assumes n: "map_get (new_Map (map (\<lambda>p. (sid p, p)) (players nf))) e = None"
    and p: "map_get (new_Map (map (\<lambda>p. (sid p, p)) (players pf))) e = Some s0"
    and f: "findNextAppearance buf e (videoTime nf) = Some \<lparr>app_player = s3, app_time = t3\<rparr>"
    and ct: "videoTime pf + (videoTime nf - videoTime pf) * alpha \<le> videoTime nf"
    and lt: "videoTime nf < t3"
    and G: "G = \<lparr>startPos = Vector3 (sx s0 / 100) 0 (sy s0 / 100),
                  endPos = Vector3 (sx s3 / 100) 0 (sy s3 / 100),
                  startTime = videoTime nf, endTime = t3\<rparr>"
    and pre: "gapStates pm e = None \<or> gapStates pm e = Some G"
  shows "\<exists>p. map_get (playerMap (update_id pf nf alpha buf pm e)) e = Some p
             \<and> isInferred p
             \<and> targetRoot p = Vector3 (sx s0 / 100) (vy (mesh_position p)) (sy s0 / 100)
             \<and> gapStates (update_id pf nf alpha buf pm e) e = Some G"
proof -
  let ?ct = "videoTime pf + (videoTime nf - videoTime pf) * alpha"
  have c1: "\<not> t3 \<le> ?ct" using ct lt by linarith
  have d: "0 < t3 - videoTime nf" using lt by simp
  have "(?ct - videoTime nf) / (t3 - videoTime nf) \<le> 0"
    using ct d by (simp add: divide_le_0_iff)
  then have ga: "max 0 (min 1 ((?ct - videoTime nf) / (t3 - videoTime nf))) = 0"
    by (simp add: max_def min_def)
  have lerp0: "lerpVectors (startPos G) (endPos G) 0 = startPos G"
    by (simp add: lerpVectors_def)
  from pre show ?thesis
  proof
    assume g0: "gapStates pm e = None"
    show ?thesis
      using c1 ga
      by (cases "map_get (playerMap pm) e")
         (simp_all add: update_id_def Let_def n p f G g0 map_get_map_set setInferred_def
            updateTarget_def new_Player_def Vector3_def lerpVectors_def)
  next
    assume g1: "gapStates pm e = Some G"
    show ?thesis
      using c1 ga
      by (cases "map_get (playerMap pm) e")
         (simp_all add: update_id_def Let_def n p f G g1 map_get_map_set setInferred_def
            updateTarget_def new_Player_def Vector3_def lerpVectors_def)
  qed
qed

lemma tick_late:
  assumes "100 < t" "t < 300"
  shows "tick_update \<lparr>frames = [\<lparr>players = ps0, videoTime = 0\<rparr>, \<lparr>players = ps1, videoTime = 100\<rparr>,
                                   \<lparr>players = ps3, videoTime = 300\<rparr>]\<rparr> pm t
         = Inr (updateWithInterpolation (Some \<lparr>players = ps1, videoTime = 100\<rparr>)
                  (Some \<lparr>players = ps3, videoTime = 300\<rparr>) ((t - 100) / 200)
                  \<lparr>frames = [\<lparr>players = ps0, videoTime = 0\<rparr>, \<lparr>players = ps1, videoTime = 100\<rparr>,
                             \<lparr>players = ps3, videoTime = 300\<rparr>]\<rparr> pm)"
  using assms
  by (simp add: tick_update_def timeSpan_def first_def last_frame_def elemAt_def
      findFramesForInterpolation_def findIndex_def Let_def)

lemma tick_early:
  assumes "0 < t" "t \<le> 100"
  shows "tick_update \<lparr>frames = [\<lparr>players = ps0, videoTime = 0\<rparr>, \<lparr>players = ps1, videoTime = 100\<rparr>,
                                   \<lparr>players = ps3, videoTime = 300\<rparr>]\<rparr> pm t
         = Inr (updateWithInterpolation (Some \<lparr>players = ps0, videoTime = 0\<rparr>)
                  (Some \<lparr>players = ps1, videoTime = 100\<rparr>) (t / 100)
                  \<lparr>frames = [\<lparr>players = ps0, videoTime = 0\<rparr>, \<lparr>players = ps1, videoTime = 100\<rparr>,
                             \<lparr>players = ps3, videoTime = 300\<rparr>]\<rparr> pm)"
  using assms
  by (simp add: tick_update_def timeSpan_def first_def last_frame_def elemAt_def
      findFramesForInterpolation_def findIndex_def Let_def)

lemma next_appearance_300:
  assumes "filter (\<lambda>p. sid p = e) ps3 = [s3]"
  shows "findNextAppearance \<lparr>frames = [\<lparr>players = ps0, videoTime = 0\<rparr>, \<lparr>players = ps1, videoTime = 100\<rparr>,
                                         \<lparr>players = ps3, videoTime = 300\<rparr>]\<rparr> e 100
         = Some \<lparr>app_player = s3, app_time = 300\<rparr>"
  by (simp add: findNextAppearance_def findIndex_def Let_def find_first_filter assms)

lemma update_fold:
  assumes "players pf \<noteq> [] \<or> players nf \<noteq> []"
  shows "updateWithInterpolation (Some pf) (Some nf) alpha buf pm
         = foldl (update_id pf nf alpha buf) pm
             (foldl set_add (foldl set_add [] (map fst (playerMap pm))) (map sid (players nf)))"
  using assms by (auto simp add: updateWithInterpolation_def Let_def)

lemma known_ids:
  "set (foldl set_add (foldl set_add [] (map fst (playerMap pm))) (map sid (players nf)))
     = fst ` set (playerMap pm) \<union> sid ` set (players nf)"
  by (simp add: set_foldl_set_add)

lemma filter_single_mem:
  assumes "filter (\<lambda>p. sid p = e) ps = [s]"
  shows "e \<in> sid ` set ps" and "ps \<noteq> []"
proof -
  have "s \<in> set (filter (\<lambda>p. sid p = e) ps)" using assms by simp
  then have "s \<in> set ps \<and> sid s = e" by simp
  then show "e \<in> sid ` set ps" by force
  show "ps \<noteq> []" using assms by auto
qed

lemma map_get_known: "map_get m k \<noteq> None \<Longrightarrow> k \<in> fst ` set m"
  by (simp add: map_get_def map_of_eq_None_iff)

text \<open>
  The tick in a buffer with frames at 0, 100 and 300 where an entity is sampled once at 0,
  not at 100 and once at 300.  At every playback time after 100 and before 300 the tick
  works on the frame pair 100/300, finds the entity in the next frame and takes the live
  branch: the gap state is cleared, the inferred flag is false and the target is the
  position sampled at 300.  At every playback time after 0 and up to 100, for a manager
  that knows the entity and holds no gap state for it or the one this update records, the
  tick works on the pair 0/100: it records the gap from 100 to 300, sets the inferred flag
  and keeps the target at the position sampled at 0.
\<close>

lemma three_frame_gap_update:
  fixes ps0 ps1 ps3 :: "sample list" and e :: string and s0 s3 :: sample
  defines "buf \<equiv> \<lparr>frames = [\<lparr>players = ps0, videoTime = 0\<rparr>, \<lparr>players = ps1, videoTime = 100\<rparr>,
                             \<lparr>players = ps3, videoTime = 300\<rparr>]\<rparr>"
  assumes h0: "filter (\<lambda>p. sid p = e) ps0 = [s0]"
    and h1: "filter (\<lambda>p. sid p = e) ps1 = []"
    and h3: "filter (\<lambda>p. sid p = e) ps3 = [s3]"
  shows "(\<forall>t pm. 100 < t \<and> t < 300 \<longrightarrow>
            (\<exists>pm' p. tick_update buf pm t = Inr pm'
                \<and> map_get (playerMap pm') e = Some p
                \<and> \<not> isInferred p
                \<and> targetRoot p = Vector3 (sx s3 / 100) (vy (mesh_position p)) (sy s3 / 100)
                \<and> gapStates pm' e = None))
       \<and> (\<forall>t pm. 0 < t \<and> t \<le> 100 \<and> map_get (playerMap pm) e \<noteq> None
              \<and> (gapStates pm e = None
                  \<or> gapStates pm e
                      = Some \<lparr>startPos = Vector3 (sx s0 / 100) 0 (sy s0 / 100),
                              endPos = Vector3 (sx s3 / 100) 0 (sy s3 / 100),
                              startTime = 100, endTime = 300\<rparr>) \<longrightarrow>
            (\<exists>pm' p. tick_update buf pm t = Inr pm'
                \<and> map_get (playerMap pm') e = Some p
                \<and> isInferred p
                \<and> targetRoot p = Vector3 (sx s0 / 100) (vy (mesh_position p)) (sy s0 / 100)
                \<and> gapStates pm' e
                    = Some \<lparr>startPos = Vector3 (sx s0 / 100) 0 (sy s0 / 100),
                            endPos = Vector3 (sx s3 / 100) 0 (sy s3 / 100),
                            startTime = 100, endTime = 300\<rparr>))"
proof (intro conjI allI impI)
  fix t :: real and pm :: PlayerManager
  assume t: "100 < t \<and> t < 300"
  let ?pf = "\<lparr>players = ps1, videoTime = 100\<rparr>"
  let ?nf = "\<lparr>players = ps3, videoTime = 300\<rparr>"
  let ?U = "update_id ?pf ?nf ((t - 100) / 200) buf"
  let ?Q = "\<lambda>m. \<exists>p. map_get (playerMap m) e = Some p \<and> \<not> isInferred p
              \<and> targetRoot p = Vector3 (sx s3 / 100) (vy (mesh_position p)) (sy s3 / 100)
              \<and> gapStates m e = None"
  have n: "map_get (new_Map (map (\<lambda>p. (sid p, p)) (players ?nf))) e = Some s3"
    by (simp add: frame_lookup h3)
  have p: "map_get (new_Map (map (\<lambda>p. (sid p, p)) (players ?pf))) e = None"
    by (simp add: frame_lookup h1)
  have mem: "e \<in> set (foldl set_add (foldl set_add [] (map fst (playerMap pm))) (map sid (players ?nf)))"
    using filter_single_mem(1) [OF h3] by (auto simp add: set_foldl_set_add)
  have "?Q (foldl ?U pm (foldl set_add (foldl set_add [] (map fst (playerMap pm))) (map sid (players ?nf))))"
  proof (rule foldl_establish [where I = "\<lambda>m. True" and Q = ?Q and f = ?U and e = e])
    show "\<And>s. True \<Longrightarrow> ?Q (?U s e)" by (rule update_id_live [OF n p])
    show "\<And>s i. i \<noteq> e \<Longrightarrow> True \<Longrightarrow> True" by simp
    show "\<And>s i. i \<noteq> e \<Longrightarrow> ?Q s \<Longrightarrow> ?Q (?U s i)" by (simp add: update_id_other)
    show "\<And>s. ?Q s \<Longrightarrow> True" by simp
    show "True" by simp
    show "e \<in> set (foldl set_add (foldl set_add [] (map fst (playerMap pm))) (map sid (players ?nf)))"
      by (rule mem)
  qed
  moreover have "tick_update buf pm t
      = Inr (foldl ?U pm (foldl set_add (foldl set_add [] (map fst (playerMap pm))) (map sid (players ?nf))))"
    using t filter_single_mem(2) [OF h3] by (simp add: buf_def tick_late update_fold)
  ultimately show "\<exists>pm' p. tick_update buf pm t = Inr pm'
                \<and> map_get (playerMap pm') e = Some p
                \<and> \<not> isInferred p
                \<and> targetRoot p = Vector3 (sx s3 / 100) (vy (mesh_position p)) (sy s3 / 100)
                \<and> gapStates pm' e = None"
    by auto
next
  fix t :: real and pm :: PlayerManager
  assume t: "0 < t \<and> t \<le> 100 \<and> map_get (playerMap pm) e \<noteq> None
              \<and> (gapStates pm e = None
                  \<or> gapStates pm e
                      = Some \<lparr>startPos = Vector3 (sx s0 / 100) 0 (sy s0 / 100),
                              endPos = Vector3 (sx s3 / 100) 0 (sy s3 / 100),
                              startTime = 100, endTime = 300\<rparr>)"
  let ?pf = "\<lparr>players = ps0, videoTime = 0\<rparr>"
  let ?nf = "\<lparr>players = ps1, videoTime = 100\<rparr>"
  let ?U = "update_id ?pf ?nf (t / 100) buf"
  define G where "G = \<lparr>startPos = Vector3 (sx s0 / 100) 0 (sy s0 / 100),
                         endPos = Vector3 (sx s3 / 100) 0 (sy s3 / 100),
                         startTime = videoTime ?nf, endTime = 300\<rparr>"
  let ?I = "\<lambda>m. gapStates m e = None \<or> gapStates m e = Some G"
  let ?Q = "\<lambda>m. \<exists>p. map_get (playerMap m) e = Some p \<and> isInferred p
              \<and> targetRoot p = Vector3 (sx s0 / 100) (vy (mesh_position p)) (sy s0 / 100)
              \<and> gapStates m e = Some G"
  have n: "map_get (new_Map (map (\<lambda>p. (sid p, p)) (players ?nf))) e = None"
    by (simp add: frame_lookup h1)
  have p: "map_get (new_Map (map (\<lambda>p. (sid p, p)) (players ?pf))) e = Some s0"
    by (simp add: frame_lookup h0)
  have f: "findNextAppearance buf e (videoTime ?nf) = Some \<lparr>app_player = s3, app_time = 300\<rparr>"
    by (simp add: buf_def next_appearance_300 [OF h3])
  have ct: "videoTime ?pf + (videoTime ?nf - videoTime ?pf) * (t / 100) \<le> videoTime ?nf"
    using t by simp
  have lt: "videoTime ?nf < (300 :: real)" by simp
  have mem: "e \<in> set (foldl set_add (foldl set_add [] (map fst (playerMap pm))) (map sid (players ?nf)))"
    using t map_get_known [of "playerMap pm" e] by (auto simp add: set_foldl_set_add)
  have "?Q (foldl ?U pm (foldl set_add (foldl set_add [] (map fst (playerMap pm))) (map sid (players ?nf))))"
  proof (rule foldl_establish [where I = ?I and Q = ?Q and f = ?U and e = e])
    show "\<And>s. ?I s \<Longrightarrow> ?Q (?U s e)" by (rule update_id_gap [OF n p f ct lt G_def])
    show "\<And>s i. i \<noteq> e \<Longrightarrow> ?I s \<Longrightarrow> ?I (?U s i)" by (simp add: update_id_other)
    show "\<And>s i. i \<noteq> e \<Longrightarrow> ?Q s \<Longrightarrow> ?Q (?U s i)" by (simp add: update_id_other)
    show "\<And>s. ?Q s \<Longrightarrow> ?I s" by auto
    show "?I pm" using t by (simp add: G_def)
    show "e \<in> set (foldl set_add (foldl set_add [] (map fst (playerMap pm))) (map sid (players ?nf)))"
      by (rule mem)
  qed
  moreover have "tick_update buf pm t
      = Inr (foldl ?U pm (foldl set_add (foldl set_add [] (map fst (playerMap pm))) (map sid (players ?nf))))"
    using t filter_single_mem(2) [OF h0] by (simp add: buf_def tick_early update_fold)
  ultimately show "\<exists>pm' p. tick_update buf pm t = Inr pm'
                \<and> map_get (playerMap pm') e = Some p
                \<and> isInferred p
                \<and> targetRoot p = Vector3 (sx s0 / 100) (vy (mesh_position p)) (sy s0 / 100)
                \<and> gapStates pm' e
                    = Some \<lparr>startPos = Vector3 (sx s0 / 100) 0 (sy s0 / 100),
                            endPos = Vector3 (sx s3 / 100) 0 (sy s3 / 100),
                            startTime = 100, endTime = 300\<rparr>"
    by (auto simp add: G_def)
qed

text \<open>
  Claim C4, the code at an input where it departs from the claim.  Player \<open>p7\<close> is sampled
  at \<open>(10, 20)\<close> at time 0, is missing at 100 and is back at \<open>(30, 40)\<close> at 300.  After ticks
  at 0, 50, 100 and 200 on the three-frame buffer its target is \<open>(30, 40)\<close>, not the midpoint
  \<open>(20, 30)\<close>, and its inferred flag is false: the frame pair at 200 is 100/300 and the live
  branch runs.  With one more frame at 200 that still lacks the player, the gap branch of
  the same function runs at 200 and does what the claim says: the target is the midpoint
  and the inferred flag is true.
\<close>

theorem C4_gap_code_at_200:
  "map_option targetRoot (player_after (run_ticks gap_buffer empty_manager [0]) ''p7'')
     = Some (Vector3 10 0.9 20)
   \<and> map_option targetRoot (player_after (run_ticks gap_buffer empty_manager [0, 50, 100, 200]) ''p7'')
     = Some (Vector3 30 0.9 40)
   \<and> map_option isInferred (player_after (run_ticks gap_buffer empty_manager [0, 50, 100, 200]) ''p7'')
     = Some False
   \<and> lerpVectors (Vector3 10 0.9 20) (Vector3 30 0.9 40) 0.5 = Vector3 20 0.9 30
   \<and> map_option targetRoot
         (player_after (run_ticks gap_buffer_200 empty_manager [0, 50, 100, 200]) ''p7'')
     = Some (Vector3 20 0.9 30)
   \<and> map_option isInferred
         (player_after (run_ticks gap_buffer_200 empty_manager [0, 50, 100, 200]) ''p7'')
     = Some True"
  by (simp add: gap_buffer_def gap_buffer_200_def empty_manager_def example_sample_def
      tick_update_def timeSpan_def first_def last_frame_def elemAt_def
      findFramesForInterpolation_def findIndex_def updateWithInterpolation_def update_id_def
      new_Map_def map_get_def set_add_def findNextAppearance_def new_Player_def setInferred_def
      updateTarget_def Vector3_def lerpVectors_def player_after_def Let_def)

end
